theory Spec2Isabelle
  imports Complex_Main "HOL-Library.AList"
begin

section \<open>Python values, exceptions and the library functions the program uses\<close>

text \<open>
  The program is one Python module, \<open>app/ai_generator/index.py\<close>: an AWS Lambda handler
  that fetches a GuardDuty finding, enriches it from Detective, asks Bedrock for an analysis,
  renders a PDF, uploads it to S3 and announces it on SNS; on throttling it schedules a retry
  through EventBridge.

  Python strings are modelled as \<open>string\<close>, one \<open>char\<close> per code point below 256. The
  program encodes every rendered text as Latin-1, so this is the range it can print; a text
  with a code point beyond it is outside the model.

  Values that travel through the program untyped (the trigger event, the service responses,
  the model's answer) are JSON-shaped Python values. A Python \<open>dict\<close> is an association
  list, in insertion order, with string keys. A float is modelled by the number it denotes;
  NaN and the infinities, which no JSON decoder of a service response produces, are left out.
  Timestamps in service responses are taken as already in their ISO text form.
\<close>

datatype pyval =
    PNone
  | PBool bool
  | PInt int
  | PFloat real
  | PStr string
  | PList "pyval list"
  | PDict "(string \<times> pyval) list"

text \<open>
  Exceptions as values. \<open>ClientError code message\<close> is botocore's exception, with the
  error code and message of its response. \<open>PyException\<close> is a plain \<open>Exception(message)\<close>;
  \<open>LibraryError\<close> stands for whatever a library raises on an argument it rejects
  (a class under \<open>Exception\<close>).
\<close>

datatype exn =
    KeyError string
  | IndexError
  | TypeError
  | AttributeError
  | ValueError string
  | ClientError string string
  | PyException string
  | LibraryError string

text \<open>The external calls a run can make, with their arguments, in the order made.\<close>

datatype client = Detective | GuardDuty | BedrockRuntime | S3 | SNS | Events

datatype call =
    Get_findings pyval "pyval list"
  | List_graphs
  | List_members pyval
  | Invoke_model string string string
  | Put_rule string string string
  | Put_targets string string string string
  | Put_object string string string string
  | Generate_presigned_url string string string nat
  | Publish string string string string
  | Delete_rule pyval

text \<open>
  A computation returns a value or raises, and leaves the list of external calls it made.
\<close>

type_synonym 'a io = "(exn + 'a) \<times> call list"

definition ret :: "'a \<Rightarrow> 'a io" where
  "ret x = (Inr x, [])"

definition raise :: "exn \<Rightarrow> 'a io" where
  "raise e = (Inl e, [])"

definition lift :: "exn + 'a \<Rightarrow> 'a io" where
  "lift r = (r, [])"

definition external :: "call \<Rightarrow> exn + 'a \<Rightarrow> 'a io" where
  "external c r = (r, [c])"

fun andthen :: "'a io \<Rightarrow> ('a \<Rightarrow> 'b io) \<Rightarrow> 'b io" where
  "andthen (Inl e, tr) f = (Inl e, tr)"
| "andthen (Inr x, tr) f = (case f x of (r, tr') \<Rightarrow> (r, tr @ tr'))"

fun catch :: "'a io \<Rightarrow> (exn \<Rightarrow> 'a io) \<Rightarrow> 'a io" where
  "catch (Inl e, tr) h = (case h e of (r, tr') \<Rightarrow> (r, tr @ tr'))"
| "catch (Inr x, tr) h = (Inr x, tr)"

subsection \<open>Subscripts, \<open>dict.get\<close>, truth and \<open>str()\<close>\<close>

text \<open>\<open>v[k]\<close> with a string key: only a dict accepts it.\<close>

fun py_getitem :: "pyval \<Rightarrow> string \<Rightarrow> exn + pyval" where
  "py_getitem (PDict kvs) k = (case map_of kvs k of None \<Rightarrow> Inl (KeyError k) | Some v \<Rightarrow> Inr v)"
| "py_getitem _ k = Inl TypeError"

text \<open>
  \<open>v[0]\<close>: the first element of a list, the first character of a string, the value
  under the key \<open>0\<close> of a dict (no dict here has one: the keys are strings).
\<close>

fun py_first :: "pyval \<Rightarrow> exn + pyval" where
  "py_first (PList []) = Inl IndexError"
| "py_first (PList (x # xs)) = Inr x"
| "py_first (PStr []) = Inl IndexError"
| "py_first (PStr (c # cs)) = Inr (PStr [c])"
| "py_first (PDict kvs) = Inl (KeyError ''0'')"
| "py_first _ = Inl TypeError"

text \<open>\<open>v.get(k, default)\<close>: a method of dicts only.\<close>

fun py_get :: "pyval \<Rightarrow> string \<Rightarrow> pyval \<Rightarrow> exn + pyval" where
  "py_get (PDict kvs) k d = (case map_of kvs k of None \<Rightarrow> Inr d | Some v \<Rightarrow> Inr v)"
| "py_get _ k d = Inl AttributeError"

fun py_truthy :: "pyval \<Rightarrow> bool" where
  "py_truthy PNone = False"
| "py_truthy (PBool b) = b"
| "py_truthy (PInt i) = (i \<noteq> 0)"
| "py_truthy (PFloat x) = (x \<noteq> 0)"
| "py_truthy (PStr s) = (s \<noteq> [])"
| "py_truthy (PList xs) = (xs \<noteq> [])"
| "py_truthy (PDict kvs) = (kvs \<noteq> [])"

text \<open>\<open>v < x\<close> for a float \<open>x\<close>: numbers compare by value, anything else is a TypeError.\<close>

fun py_lt_float :: "pyval \<Rightarrow> real \<Rightarrow> exn + bool" where
  "py_lt_float (PInt i) x = Inr (real_of_int i < x)"
| "py_lt_float (PFloat y) x = Inr (y < x)"
| "py_lt_float (PBool b) x = Inr ((if b then 1 else 0) < x)"
| "py_lt_float _ x = Inl TypeError"

text \<open>
  Library functions whose code is not part of the repository and whose result the model
  does not compute are parameters: the text of a float, of a list or dict and of an
  exception, the JSON parser, the indented JSON printer and the PDF serializer.
\<close>

datatype font = Font string string nat

datatype block =
    Page_block
  | Cell_block font "nat \<times> nat \<times> nat" nat nat string bool string string
  | Multi_cell_block font "nat \<times> nat \<times> nat" nat nat string
  | Ln_block nat

record datetime =
  year :: nat
  month :: nat
  day :: nat
  hour :: nat
  minute :: nat
  second :: nat
  microsecond :: nat

record pylib =
  str_float :: "real \<Rightarrow> string"
  str_container :: "pyval \<Rightarrow> string"
  str_exn :: "exn \<Rightarrow> string"
  json_loads :: "string \<Rightarrow> pyval option"
  json_dumps_indent :: "nat \<Rightarrow> pyval \<Rightarrow> string"
  fpdf_output :: "datetime \<Rightarrow> (bool \<times> nat) \<Rightarrow> block list \<Rightarrow> string"

text \<open>Decimal digits of a natural number, and \<open>str\<close> of an int.\<close>

function str_nat :: "nat \<Rightarrow> string" where
  "str_nat n =
     (if n < 10 then [''0123456789'' ! n] else str_nat (n div 10) @ [''0123456789'' ! (n mod 10)])"
  by pat_completeness auto
termination
  by (relation "measure id") auto

declare str_nat.simps [simp del]

definition str_int :: "int \<Rightarrow> string" where
  "str_int i = (if i < 0 then CHR ''-'' # str_nat (nat (- i)) else str_nat (nat i))"

fun py_str :: "pylib \<Rightarrow> pyval \<Rightarrow> string" where
  "py_str L PNone = ''None''"
| "py_str L (PBool b) = (if b then ''True'' else ''False'')"
| "py_str L (PInt i) = str_int i"
| "py_str L (PFloat x) = str_float L x"
| "py_str L (PStr s) = s"
| "py_str L v = str_container L v"

subsection \<open>String methods\<close>

text \<open>
  \<open>str.isspace\<close> on the code points below 256: tab, LF, VT, FF, CR, the four separators
  0x1C to 0x1F, space, NEL (0x85) and the no-break space (0xA0). The regular expression
  class \<open>\s\<close> on a \<open>str\<close> pattern is the same set.
\<close>

definition isspace :: "char \<Rightarrow> bool" where
  "isspace c = (of_char c \<in> {9, 10, 11, 12, 13, 28, 29, 30, 31, 32, 133, 160 :: nat})"

definition strip :: "string \<Rightarrow> string" where
  "strip s = rev (dropWhile isspace (rev (dropWhile isspace s)))"

text \<open>\<open>s.replace(" ", "%20")\<close>.\<close>

fun replace_space :: "string \<Rightarrow> string" where
  "replace_space [] = []"
| "replace_space (c # cs) = (if c = CHR '' '' then ''%20'' @ replace_space cs else c # replace_space cs)"

text \<open>
  \<open>s.split("\n")\<close>: the pieces between line feeds, empty ones included. The first
  argument holds the piece being read, reversed.
\<close>

fun split_acc :: "string \<Rightarrow> string \<Rightarrow> string list" where
  "split_acc cur [] = [rev cur]"
| "split_acc cur (c # cs) =
     (if c = CHR 0x0A then rev cur # split_acc [] cs else split_acc (c # cur) cs)"

definition split_lines :: "string \<Rightarrow> string list" where
  "split_lines s = split_acc [] s"

text \<open>
  \<open>re.split(r"\n\s*\n", s)\<close>. A match starts at a line feed and, \<open>\s*\<close> being greedy,
  ends at the last line feed of the run of whitespace that follows it; when that run holds
  no line feed there is no match at this position, nor inside the run. \<open>blank_normal\<close>
  reads outside a candidate match; \<open>blank_pending cur ws m\<close> reads the whitespace run after
  a line feed, with \<open>m\<close> telling whether a second line feed was seen and \<open>ws\<close> the
  whitespace read since the last line feed (reversed, like \<open>cur\<close>).
\<close>

fun blank_normal :: "string \<Rightarrow> string \<Rightarrow> string list"
  and blank_pending :: "string \<Rightarrow> string \<Rightarrow> bool \<Rightarrow> string \<Rightarrow> string list" where
  "blank_normal cur [] = [rev cur]"
| "blank_normal cur (c # cs) =
     (if c = CHR 0x0A then blank_pending cur [] False cs else blank_normal (c # cur) cs)"
| "blank_pending cur ws m [] =
     (if m then [rev cur, rev ws] else [rev (ws @ CHR 0x0A # cur)])"
| "blank_pending cur ws m (c # cs) =
     (if c = CHR 0x0A then blank_pending cur [] True cs
      else if isspace c then blank_pending cur (c # ws) m cs
      else if m then rev cur # blank_normal (c # ws) cs
      else blank_normal (c # ws @ CHR 0x0A # cur) cs)"

definition re_split_blank :: "string \<Rightarrow> string list" where
  "re_split_blank s = blank_normal [] s"

subsection \<open>\<open>json.dumps\<close>\<close>

text \<open>
  \<open>json.dumps\<close> with its defaults: separators \<open>", "\<close> and \<open>": "\<close>, and
  \<open>ensure_ascii\<close>, which escapes the quote, the backslash and every character outside
  the range from space to tilde.
\<close>

definition hex_digit :: "nat \<Rightarrow> char" where
  "hex_digit n = ''0123456789abcdef'' ! (n mod 16)"

definition json_escape :: "char \<Rightarrow> string" where
  "json_escape c =
     (if c = CHR 0x22 then [CHR 0x5C, CHR 0x22]
      else if c = CHR 0x5C then [CHR 0x5C, CHR 0x5C]
      else if c = CHR 0x0A then [CHR 0x5C, CHR ''n'']
      else if c = CHR 0x0D then [CHR 0x5C, CHR ''r'']
      else if c = CHR 0x09 then [CHR 0x5C, CHR ''t'']
      else if c = CHR 0x08 then [CHR 0x5C, CHR ''b'']
      else if c = CHR 0x0C then [CHR 0x5C, CHR ''f'']
      else if of_char c < (32 :: nat) \<or> (126 :: nat) < of_char c
        then [CHR 0x5C, CHR ''u'', CHR ''0'', CHR ''0'',
              hex_digit (of_char c div 16), hex_digit (of_char c)]
      else [c])"

definition json_string :: "string \<Rightarrow> string" where
  "json_string s = CHR 0x22 # concat (map json_escape s) @ [CHR 0x22]"

fun join :: "string \<Rightarrow> string list \<Rightarrow> string" where
  "join sep [] = []"
| "join sep [x] = x"
| "join sep (x # y # ys) = x @ sep @ join sep (y # ys)"

fun json_dumps :: "pylib \<Rightarrow> pyval \<Rightarrow> string" where
  "json_dumps L PNone = ''null''"
| "json_dumps L (PBool b) = (if b then ''true'' else ''false'')"
| "json_dumps L (PInt i) = str_int i"
| "json_dumps L (PFloat x) = str_float L x"
| "json_dumps L (PStr s) = json_string s"
| "json_dumps L (PList xs) = ''['' @ join '', '' (map (json_dumps L) xs) @ '']''"
| "json_dumps L (PDict kvs) =
     ''{'' @ join '', '' (map (\<lambda>(k, v). json_string k @ '': '' @ json_dumps L v) kvs) @ ''}''"

subsection \<open>\<open>datetime\<close>\<close>

definition is_leap :: "nat \<Rightarrow> bool" where
  "is_leap y = (y mod 4 = 0 \<and> (y mod 100 \<noteq> 0 \<or> y mod 400 = 0))"

definition days_in_month :: "nat \<Rightarrow> nat \<Rightarrow> nat" where
  "days_in_month y m =
     (if m = 2 then (if is_leap y then 29 else 28)
      else if m = 4 \<or> m = 6 \<or> m = 9 \<or> m = 11 then 30 else 31)"

definition next_day :: "datetime \<Rightarrow> datetime" where
  "next_day d =
     (if day d < days_in_month (year d) (month d) then d\<lparr>day := day d + 1\<rparr>
      else if month d < 12 then d\<lparr>month := month d + 1, day := 1\<rparr>
      else d\<lparr>year := year d + 1, month := 1, day := 1\<rparr>)"

text \<open>
  \<open>d + timedelta(seconds=n)\<close>. (Python raises OverflowError past the year 9999; the
  clock is taken to be earlier than that.)
\<close>

definition add_seconds :: "datetime \<Rightarrow> nat \<Rightarrow> datetime" where
  "add_seconds d n =
     (let t = hour d * 3600 + minute d * 60 + second d + n;
          r = t mod 86400
      in ((next_day ^^ (t div 86400)) d)
           \<lparr>hour := r div 3600, minute := (r mod 3600) div 60, second := r mod 60\<rparr>)"

definition zfill :: "nat \<Rightarrow> string \<Rightarrow> string" where
  "zfill n s = replicate (n - length s) CHR ''0'' @ s"

definition isoformat :: "datetime \<Rightarrow> string" where
  "isoformat d =
     zfill 4 (str_nat (year d)) @ ''-'' @ zfill 2 (str_nat (month d)) @ ''-'' @
     zfill 2 (str_nat (day d)) @ ''T'' @ zfill 2 (str_nat (hour d)) @ '':'' @
     zfill 2 (str_nat (minute d)) @ '':'' @ zfill 2 (str_nat (second d)) @
     (if microsecond d = 0 then [] else ''.'' @ zfill 6 (str_nat (microsecond d)))"

text \<open>
  \<open>random.randint(a, b)\<close>: an integer between \<open>a\<close> and \<open>b\<close>, both included, chosen by
  the generator's draw \<open>r\<close>.
\<close>

definition randint :: "nat \<Rightarrow> nat \<Rightarrow> nat \<Rightarrow> nat" where
  "randint a b r = a + r mod (b - a + 1)"

section \<open>The world outside the program\<close>

text \<open>
  What a run reads from outside: the process environment, the answer of each service to
  each request (a value, or the exception the client raises), the clock at the three
  places it is read (in \<open>schedule_retry\<close>, in \<open>generate_pdf\<close> and by the PDF library
  when it serializes), the random draw and the fresh UUID. The answer of \<open>invoke_model\<close> is
  the decoded JSON of the response body; an exception there also stands for a body that
  does not decode.
\<close>

record world =
  environ :: "(string \<times> string) list"
  get_findings :: "pyval \<Rightarrow> pyval list \<Rightarrow> exn + pyval"
  list_graphs :: "exn + pyval"
  list_members :: "pyval \<Rightarrow> exn + pyval"
  invoke_model :: "string \<Rightarrow> string \<Rightarrow> string \<Rightarrow> exn + pyval"
  put_rule :: "string \<Rightarrow> string \<Rightarrow> string \<Rightarrow> exn + unit"
  put_targets :: "string \<Rightarrow> string \<Rightarrow> string \<Rightarrow> string \<Rightarrow> exn + unit"
  put_object :: "string \<Rightarrow> string \<Rightarrow> string \<Rightarrow> string \<Rightarrow> exn + unit"
  generate_presigned_url :: "string \<Rightarrow> string \<Rightarrow> string \<Rightarrow> nat \<Rightarrow> exn + string"
  publish :: "string \<Rightarrow> string \<Rightarrow> string \<Rightarrow> string \<Rightarrow> exn + unit"
  delete_rule :: "pyval \<Rightarrow> exn + unit"
  utcnow_retry :: datetime
  utcnow_pdf :: datetime
  now_output :: datetime
  random_draw :: nat
  uuid4 :: string

record lambda_context =
  function_name :: string

record response =
  statusCode :: nat
  body :: string

section \<open>The program\<close>

subsection \<open>Normalization\<close>

text \<open>
  \<open>convert_to_json_serializable\<close>: recursion through dicts and lists. Its Decimal and
  datetime cases have no value to apply to in \<open>pyval\<close>; every other value is returned as
  it is.
\<close>

fun convert_to_json_serializable :: "pyval \<Rightarrow> pyval" where
  "convert_to_json_serializable (PDict kvs) =
     PDict (map (\<lambda>(key, v). (key, convert_to_json_serializable v)) kvs)"
| "convert_to_json_serializable (PList xs) = PList (map convert_to_json_serializable xs)"
| "convert_to_json_serializable v = v"

subsection \<open>Enrichment reader\<close>

text \<open>
  Each of these functions logs and re-raises what it catches, so the exception it leaves
  is the one that occurred. Logging is not modelled.
\<close>

definition get_guardduty_finding :: "world \<Rightarrow> pyval \<Rightarrow> pyval \<Rightarrow> pyval io" where
  "get_guardduty_finding W detector_id finding_id =
     andthen (external (Get_findings detector_id [finding_id])
                (get_findings W detector_id [finding_id])) (\<lambda>resp.
     andthen (lift (py_getitem resp ''Findings'')) (\<lambda>findings.
     lift (py_first findings)))"

definition get_graph_arn :: "world \<Rightarrow> pyval io" where
  "get_graph_arn W =
     andthen (external List_graphs (list_graphs W)) (\<lambda>graphs.
     andthen (lift (py_get graphs ''GraphList'' (PList []))) (\<lambda>graph_list.
     if \<not> py_truthy graph_list then raise (PyException ''No graphs found in Amazon Detective.'')
     else
       andthen (lift (py_getitem graphs ''GraphList'')) (\<lambda>gl.
       andthen (lift (py_first gl)) (\<lambda>g.
       lift (py_getitem g ''Arn'')))))"

text \<open>\<open>len(v)\<close>, which the log line of \<open>get_all_detective_entities\<close> evaluates.\<close>

fun py_len :: "pyval \<Rightarrow> exn + nat" where
  "py_len (PStr s) = Inr (length s)"
| "py_len (PList xs) = Inr (length xs)"
| "py_len (PDict kvs) = Inr (length kvs)"
| "py_len _ = Inl TypeError"

definition get_all_detective_entities :: "world \<Rightarrow> pyval \<Rightarrow> pyval io" where
  "get_all_detective_entities W graph_arn =
     andthen (external (List_members graph_arn) (list_members W graph_arn)) (\<lambda>response.
     andthen (lift (py_get response ''MemberDetails'' (PList []))) (\<lambda>all_members.
     andthen (lift (py_len all_members)) (\<lambda>_.
     ret all_members)))"

subsection \<open>Retry scheduler\<close>

definition cron_expression :: "datetime \<Rightarrow> string" where
  "cron_expression future_time =
     ''cron('' @ str_nat (minute future_time) @ '' '' @ str_nat (hour future_time) @ '' '' @
     str_nat (day future_time) @ '' '' @ str_nat (month future_time) @ '' ? '' @
     str_nat (year future_time) @ '')''"

text \<open>The replay of the trigger event that the schedule's target receives.\<close>

definition retry_input :: "pyval \<Rightarrow> pyval \<Rightarrow> pyval \<Rightarrow> pyval \<Rightarrow> pyval \<Rightarrow> string \<Rightarrow> pyval io" where
  "retry_input event account_id region finding_id detector_id event_id =
     andthen (lift (py_getitem event ''version'')) (\<lambda>version.
     andthen (lift (py_getitem event ''id'')) (\<lambda>ident.
     andthen (lift (py_getitem event ''detail-type'')) (\<lambda>detail_type.
     andthen (lift (py_getitem event ''source'')) (\<lambda>source.
     andthen (lift (py_getitem event ''time'')) (\<lambda>time.
     andthen (lift (py_getitem event ''resources'')) (\<lambda>resources.
     andthen (lift (py_getitem event ''detail'')) (\<lambda>detail.
     andthen (lift (py_getitem detail ''schemaVersion'')) (\<lambda>schema_version.
     andthen (lift (py_getitem detail ''partition'')) (\<lambda>partition_id.
     ret (PDict
        [(''version'', version),
         (''id'', ident),
         (''detail-type'', detail_type),
         (''source'', source),
         (''account'', account_id),
         (''time'', time),
         (''region'', region),
         (''resources'', resources),
         (''detail'', PDict
            [(''schemaVersion'', schema_version),
             (''accountId'', account_id),
             (''region'', region),
             (''partition'', partition_id),
             (''id'', finding_id),
             (''service'', PDict [(''detectorId'', detector_id)]),
             (''retryRuleName'', PStr (''RetryLambdaInvocation-'' @ event_id))])]))))))))))"

text \<open>
  The second \<open>try\<close> block of \<open>schedule_retry\<close>: the rule, then its target with the
  replay as input.
\<close>

definition register_retry ::
  "pylib \<Rightarrow> world \<Rightarrow> pyval \<Rightarrow> lambda_context \<Rightarrow> datetime \<Rightarrow> string \<Rightarrow>
   pyval \<Rightarrow> pyval \<Rightarrow> pyval \<Rightarrow> pyval \<Rightarrow> pyval io" where
  "register_retry L W event context future_time event_id account_id region finding_id detector_id =
     (let rule_name = ''RetryLambdaInvocation-'' @ event_id in
      andthen (external (Put_rule rule_name (cron_expression future_time) ''ENABLED'')
                 (put_rule W rule_name (cron_expression future_time) ''ENABLED'')) (\<lambda>_.
      let lambda_arn = ''arn:aws:lambda:'' @ py_str L region @ '':'' @ py_str L account_id @
                       '':function:'' @ function_name context in
      andthen (retry_input event account_id region finding_id detector_id event_id) (\<lambda>replay.
      andthen (external (Put_targets rule_name event_id lambda_arn (json_dumps L replay))
                 (put_targets W rule_name event_id lambda_arn (json_dumps L replay))) (\<lambda>_.
      ret (PStr ''rescheduled'')))))"

text \<open>
  \<open>schedule_retry\<close>. A key missing among the first four lookups becomes a ValueError,
  which leaves the function. Whatever the registration raises is logged and dropped: the
  function then ends without a \<open>return\<close>, so its value is \<open>None\<close>.
\<close>

definition schedule_retry :: "pylib \<Rightarrow> world \<Rightarrow> pyval \<Rightarrow> lambda_context \<Rightarrow> pyval io" where
  "schedule_retry L W event context =
     (let delay_seconds = randint 1 600 (random_draw W);
          future_time = add_seconds (utcnow_retry W) delay_seconds;
          event_id = uuid4 W
      in
      andthen
        (catch
          (andthen (lift (py_getitem event ''account'')) (\<lambda>account_id.
           andthen (lift (py_getitem event ''region'')) (\<lambda>region.
           andthen (lift (py_getitem event ''detail'')) (\<lambda>detail.
           andthen (lift (py_getitem detail ''id'')) (\<lambda>finding_id.
           andthen (lift (py_getitem detail ''service'')) (\<lambda>service.
           andthen (lift (py_getitem service ''detectorId'')) (\<lambda>detector_id.
           ret (account_id, region, finding_id, detector_id))))))))
          (\<lambda>e. case e of KeyError k \<Rightarrow> raise (ValueError ''Invalid event structure'')
                | _ \<Rightarrow> raise e))
        (\<lambda>(account_id, region, finding_id, detector_id).
      catch
        (register_retry L W event context future_time event_id
           account_id region finding_id detector_id)
        (\<lambda>e. ret PNone)))"

subsection \<open>Analysis invoker\<close>

definition startswith :: "string \<Rightarrow> string \<Rightarrow> bool" where
  "startswith p s = (take (length p) s = p)"

definition prompt :: "pylib \<Rightarrow> pyval \<Rightarrow> pyval \<Rightarrow> string" where
  "prompt L finding detective_entities =
     ''You are a cybersecurity assistant that specializes in providing actionable'' @
     '' solutions for security threats detected by AWS services. Here is the'' @
     '' GuardDuty finding and relevant enrichment data from Amazon Detective:'' @
     '' '' @ json_dumps_indent L 4 finding @ ''. '' @
     ''Detective entities involved:'' @
     '' '' @ json_dumps_indent L 4 detective_entities @ ''. '' @
     ''Based on this information,determine if this was a successful breach or a blocked attempt. Also,'' @
     '' provide information on the entities involved and if a security group is'' @
     '' impacted and needs intervention.Also, provide specific actions I should take'' @
     '' to remediate this issue and prevent future occurrences. '' @
     ''The actions should come with a section header containing '' @
     [CHR 0x22] @ ''Remediation Actions:'' @ [CHR 0x22]"

text \<open>
  The request body: the fixed arguments, then one argument for each environment variable
  whose name starts with \<open>body_args_\<close>, parsed as JSON when it parses.
\<close>

definition body_args :: "pylib \<Rightarrow> world \<Rightarrow> pyval \<Rightarrow> pyval \<Rightarrow> (string \<times> pyval) list" where
  "body_args L W finding detective_entities =
     foldl (\<lambda>args (key, v).
              if startswith ''body_args_'' key
              then AList.update (drop 10 key)
                     (case json_loads L v of Some parsed \<Rightarrow> parsed | None \<Rightarrow> PStr v) args
              else args)
       [(''messages'', PList [PDict [(''role'', PStr ''user''),
                                     (''content'', PStr (prompt L finding detective_entities))]]),
        (''max_tokens'', PInt 5000),
        (''temperature'', PFloat (7 / 10))]
       (environ W)"

definition model_id :: "world \<Rightarrow> string" where
  "model_id W =
     (case map_of (environ W) ''BEDROCK_MODEL_ID'' of
        None \<Rightarrow> ''anthropic.claude-3-5-sonnet-20240620-v1:0''
      | Some m \<Rightarrow> m)"

definition invoke_bedrock_model ::
  "pylib \<Rightarrow> world \<Rightarrow> pyval \<Rightarrow> pyval \<Rightarrow> pyval \<Rightarrow> lambda_context \<Rightarrow> pyval io" where
  "invoke_bedrock_model L W finding detective_entities event context =
     catch
       (let request = json_dumps L (PDict (body_args L W finding detective_entities)) in
        andthen (external (Invoke_model (model_id W) ''application/json'' request)
                   (invoke_model W (model_id W) ''application/json'' request)) (\<lambda>ai_insights.
        andthen (lift (py_get ai_insights ''content'' (PList [PDict []]))) (\<lambda>content.
        andthen (lift (py_first content)) (\<lambda>first_block.
        lift (py_get first_block ''text'' (PStr []))))))
       (\<lambda>e. case e of
              ClientError code msg \<Rightarrow>
                if code = ''ThrottlingException'' then schedule_retry L W event context
                else raise e
            | _ \<Rightarrow> raise e)"

subsection \<open>Document renderer\<close>

text \<open>
  The PDF object while it is built: the current font and text colour, the page-break
  setting, and the blocks written so far. A cell or a paragraph is written in the font and
  colour current at that moment.
\<close>

record fpdf =
  cur_font :: font
  text_color :: "nat \<times> nat \<times> nat"
  auto_page_break :: "bool \<times> nat"
  blocks :: "block list"

definition FPDF :: fpdf where
  "FPDF = \<lparr>cur_font = Font [] [] 12, text_color = (0, 0, 0), auto_page_break = (True, 20),
           blocks = []\<rparr>"

definition pdf_set_auto_page_break :: "bool \<Rightarrow> nat \<Rightarrow> fpdf \<Rightarrow> fpdf" where
  "pdf_set_auto_page_break auto margin pdf = pdf\<lparr>auto_page_break := (auto, margin)\<rparr>"

definition pdf_add_page :: "fpdf \<Rightarrow> fpdf" where
  "pdf_add_page pdf = pdf\<lparr>blocks := blocks pdf @ [Page_block]\<rparr>"

definition pdf_set_font :: "string \<Rightarrow> string \<Rightarrow> nat \<Rightarrow> fpdf \<Rightarrow> fpdf" where
  "pdf_set_font family style sz pdf = pdf\<lparr>cur_font := Font family style sz\<rparr>"

definition pdf_set_text_color :: "nat \<Rightarrow> nat \<Rightarrow> nat \<Rightarrow> fpdf \<Rightarrow> fpdf" where
  "pdf_set_text_color r g b pdf = pdf\<lparr>text_color := (r, g, b)\<rparr>"

definition pdf_cell :: "nat \<Rightarrow> nat \<Rightarrow> string \<Rightarrow> bool \<Rightarrow> string \<Rightarrow> string \<Rightarrow> fpdf \<Rightarrow> fpdf" where
  "pdf_cell w h txt newline align link pdf =
     pdf\<lparr>blocks := blocks pdf @
       [Cell_block (cur_font pdf) (text_color pdf) w h txt newline align link]\<rparr>"

definition pdf_multi_cell :: "nat \<Rightarrow> nat \<Rightarrow> string \<Rightarrow> fpdf \<Rightarrow> fpdf" where
  "pdf_multi_cell w h txt pdf =
     pdf\<lparr>blocks := blocks pdf @ [Multi_cell_block (cur_font pdf) (text_color pdf) w h txt]\<rparr>"

definition pdf_ln :: "nat \<Rightarrow> fpdf \<Rightarrow> fpdf" where
  "pdf_ln h pdf = pdf\<lparr>blocks := blocks pdf @ [Ln_block h]\<rparr>"

text \<open>The library writes strings; it raises on a text that is not one.\<close>

fun fpdf_text :: "pyval \<Rightarrow> exn + string" where
  "fpdf_text (PStr s) = Inr s"
| "fpdf_text _ = Inl (LibraryError ''fpdf: text is not a string'')"

text \<open>The body of the inner loop: one line of the analysis text.\<close>

definition render_line :: "fpdf \<Rightarrow> string \<Rightarrow> fpdf" where
  "render_line pdf line =
     (if strip line \<in> set [''Analysis:'', ''Remediation Actions:'', ''Recommended Actions:'']
      then pdf_cell 0 10 (strip line) True [] [] (pdf_set_font ''Arial'' ''B'' 12 pdf)
      else if strip line \<in> set [''Entities Involved:'', ''Security Group Impact:'',
                                ''Attempt Status:'']
      then pdf_cell 0 10 (strip line) True [] [] (pdf_set_font ''Arial'' ''B'' 10 pdf)
      else pdf_multi_cell 0 10 (strip line) (pdf_set_font ''Arial'' [] 10 pdf))"

text \<open>The body of the outer loop: the lines of one section, then a break of 5.\<close>

definition render_section :: "fpdf \<Rightarrow> string \<Rightarrow> fpdf" where
  "render_section pdf section_text = pdf_ln 5 (foldl render_line pdf (split_lines section_text))"

text \<open>The outer loop, over the sections that the split on blank lines gives.\<close>

definition render_insights :: "fpdf \<Rightarrow> string list \<Rightarrow> fpdf" where
  "render_insights pdf insights_lines = foldl render_section pdf insights_lines"

text \<open>\<open>{d.get(k, default)}\<close> inside an f-string.\<close>

definition fmt_get :: "pylib \<Rightarrow> pyval \<Rightarrow> string \<Rightarrow> string \<Rightarrow> string io" where
  "fmt_get L d k dflt = andthen (lift (py_get d k (PStr dflt))) (\<lambda>v. ret (py_str L v))"

definition finding_details :: "pylib \<Rightarrow> pyval \<Rightarrow> string io" where
  "finding_details L guardduty_finding =
     andthen (fmt_get L guardduty_finding ''Type'' ''N/A'') (\<lambda>ftype.
     andthen (fmt_get L guardduty_finding ''Id'' ''N/A'') (\<lambda>fid.
     andthen (fmt_get L guardduty_finding ''Severity'' ''N/A'') (\<lambda>severity.
     andthen (fmt_get L guardduty_finding ''AccountId'' ''N/A'') (\<lambda>account.
     andthen (fmt_get L guardduty_finding ''Region'' ''N/A'') (\<lambda>region.
     ret (''Finding Type: '' @ ftype @ [CHR 0x0A] @
          ''Finding ID: '' @ fid @ [CHR 0x0A] @
          ''Severity: '' @ severity @ [CHR 0x0A] @
          ''Account ID: '' @ account @ [CHR 0x0A] @
          ''Region: '' @ region @ [CHR 0x0A]))))))"

definition guardduty_link :: "string \<Rightarrow> string \<Rightarrow> string" where
  "guardduty_link region finding_id =
     ''https://'' @ region @ ''.console.aws.amazon.com/guardduty/home?region='' @ region @
     ''#/findings?'' @ ''search=id%3D'' @ finding_id @ ''&macros=current''"

definition detective_link :: "string \<Rightarrow> string \<Rightarrow> string" where
  "detective_link region finding_id =
     ''https://'' @ region @ ''.console.aws.amazon.com/detective/home?region='' @ region @
     ''#search?'' @ ''searchType=Finding&searchText='' @ finding_id"

definition summary_text :: string where
  "summary_text =
     ''The above insights and recommendations provide detailed information on mitigating the'' @
     '' identified threat. Please ensure the recommended security actions are promptly applied to'' @
     '' minimize future risks.''"

text \<open>\<open>ai_insights.strip()\<close>: a method of strings only.\<close>

fun py_strip :: "pyval \<Rightarrow> exn + string" where
  "py_strip (PStr s) = Inr (strip s)"
| "py_strip _ = Inl AttributeError"

text \<open>
  \<open>generate_pdf\<close> returns the bytes of the document. It makes no external call; it reads
  the clock for the line "Generated on", and the library serializes the blocks at the end.
\<close>

definition generate_pdf :: "pylib \<Rightarrow> world \<Rightarrow> pyval \<Rightarrow> pyval \<Rightarrow> string io" where
  "generate_pdf L W ai_insights guardduty_finding =
     (let pdf = pdf_add_page (pdf_set_auto_page_break True 15 FPDF);
          pdf = pdf_set_font ''Arial'' ''B'' 16 pdf;
          pdf = pdf_cell 200 10 ''GuardDuty Finding Report'' True ''C'' [] pdf
      in
      andthen (lift (py_get guardduty_finding ''Type'' (PStr ''N/A''))) (\<lambda>type_label.
      andthen (lift (fpdf_text type_label)) (\<lambda>type_txt.
      let pdf = pdf_cell 200 10 type_txt True ''C'' [] pdf;
          pdf = pdf_set_font ''Arial'' [] 12 pdf;
          pdf = pdf_cell 200 10 (''Generated on: '' @ isoformat (utcnow_pdf W)) True ''C'' [] pdf;
          pdf = pdf_ln 10 pdf;
          pdf = pdf_set_font ''Arial'' ''B'' 14 pdf;
          pdf = pdf_cell 200 10 ''GuardDuty Finding Details'' True [] [] pdf;
          pdf = pdf_set_font ''Arial'' [] 12 pdf
      in
      andthen (finding_details L guardduty_finding) (\<lambda>details.
      let pdf = pdf_multi_cell 0 10 details pdf in
      andthen (fmt_get L guardduty_finding ''Region'' ''us-east-1'') (\<lambda>region.
      andthen (fmt_get L guardduty_finding ''Id'' ''unknown'') (\<lambda>finding_id.
      let pdf = pdf_ln 10 pdf;
          pdf = pdf_set_font ''Arial'' ''B'' 12 pdf;
          pdf = pdf_cell 200 10 ''Relevant Links'' True [] [] pdf;
          pdf = pdf_set_font ''Arial'' [] 12 pdf;
          pdf = pdf_set_text_color 0 0 255 pdf;
          pdf = pdf_cell 200 10 ''View Finding in GuardDuty Console'' True []
                  (guardduty_link region finding_id) pdf;
          pdf = pdf_cell 200 10 ''View Finding in Detective Console'' True []
                  (detective_link region finding_id) pdf;
          pdf = pdf_set_text_color 0 0 0 pdf;
          pdf = pdf_ln 10 pdf;
          pdf = pdf_set_font ''Arial'' ''B'' 14 pdf;
          pdf = pdf_cell 200 10 ''AI Insights'' True [] [] pdf
      in
      andthen (lift (py_strip ai_insights)) (\<lambda>stripped.
      let pdf = render_insights pdf (re_split_blank stripped);
          pdf = pdf_ln 10 pdf;
          pdf = pdf_set_font ''Arial'' ''B'' 14 pdf;
          pdf = pdf_cell 200 10 ''Conclusion and Recommended Actions'' True [] [] pdf;
          pdf = pdf_set_font ''Arial'' [] 12 pdf;
          pdf = pdf_multi_cell 0 10 summary_text pdf
      in
      ret (fpdf_output L (now_output W) (auto_page_break pdf) (blocks pdf)))))))))"

subsection \<open>Publisher\<close>

definition upload_pdf_to_s3 :: "world \<Rightarrow> string \<Rightarrow> string \<Rightarrow> string \<Rightarrow> string io" where
  "upload_pdf_to_s3 W pdf_buffer file_name bucket_name =
     andthen (external (Put_object bucket_name file_name pdf_buffer ''application/pdf'')
                (put_object W bucket_name file_name pdf_buffer ''application/pdf'')) (\<lambda>_.
     external (Generate_presigned_url ''get_object'' bucket_name file_name 3600)
       (generate_presigned_url W ''get_object'' bucket_name file_name 3600))"

definition email_message :: "string \<Rightarrow> string" where
  "email_message url =
     ''New GuardDuty finding. Enriched PDF with AI remediation'' @ [CHR 0x27] @
     ''s can be downloaded here: '' @ url"

definition message_structure :: "string \<Rightarrow> pyval" where
  "message_structure url =
     PDict [(''default'',
             PStr ''New GuardDuty finding with enriched PDF. Click the link to download.''),
            (''email'', PStr (email_message url))]"

definition send_sns_notification :: "pylib \<Rightarrow> world \<Rightarrow> string \<Rightarrow> string \<Rightarrow> unit io" where
  "send_sns_notification L W pre_signed_url topic_arn =
     (let encoded = replace_space (strip pre_signed_url);
          message = json_dumps L (message_structure encoded)
      in external (Publish topic_arn message ''GuardDuty Finding Enrichment Report'' ''json'')
           (publish W topic_arn message ''GuardDuty Finding Enrichment Report'' ''json''))"

subsection \<open>Retry cleanup\<close>

text \<open>
  \<open>client.delete_rule(Name=...)\<close>. A boto3 client has the operations of its own service,
  and \<open>delete_rule\<close> is an operation of EventBridge. On the client of another service
  the attribute does not exist: looking it up raises AttributeError, and no request is made.
\<close>

definition client_delete_rule :: "world \<Rightarrow> client \<Rightarrow> pyval \<Rightarrow> unit io" where
  "client_delete_rule W cl event_rule_name =
     (if cl = Events then external (Delete_rule event_rule_name) (delete_rule W event_rule_name)
      else raise AttributeError)"

text \<open>\<open>remove_retry_event_rule\<close> logs what it catches and returns.\<close>

definition remove_retry_event_rule :: "world \<Rightarrow> client \<Rightarrow> pyval \<Rightarrow> unit io" where
  "remove_retry_event_rule W cl event_rule_name =
     catch (client_delete_rule W cl event_rule_name) (\<lambda>e. ret ())"

subsection \<open>Pipeline orchestrator\<close>

text \<open>
  The \<open>try\<close> block of the handler either executes a \<open>return\<close> of its own or runs to its
  end, after which the handler returns the analysis text.
\<close>

datatype flow = Returned response | Completed pyval

definition not_set :: "string option \<Rightarrow> bool" where
  "not_set v = (case v of None \<Rightarrow> True | Some s \<Rightarrow> s = [])"

definition skip_message :: "pylib \<Rightarrow> pyval \<Rightarrow> pyval \<Rightarrow> string" where
  "skip_message L finding_id severity =
     ''Finding '' @ py_str L finding_id @ '' has severity of '' @ py_str L severity @
     '' not processing''"

text \<open>
  The end of the \<open>try\<close> block: render, upload, notify and, for a replayed event, delete
  the schedule that replayed it. The handler passes its SNS client to
  \<open>remove_retry_event_rule\<close> (\<open>remove_retry_event_rule(sns_client, retry_rule_name)\<close>). The
  source reads
  \<open>event["detail"]\<close> again for the marker; it is the value read at the start of the
  block, passed here as \<open>detail\<close>.
\<close>

definition render_and_publish ::
  "pylib \<Rightarrow> world \<Rightarrow> pyval \<Rightarrow> pyval \<Rightarrow> pyval \<Rightarrow> string \<Rightarrow> string \<Rightarrow> pyval \<Rightarrow> flow io" where
  "render_and_publish L W detail finding_id finding s3_bucket_name sns_topic_arn ai_insights =
     andthen (generate_pdf L W ai_insights finding) (\<lambda>pdf_buffer.
     let file_name = py_str L finding_id @ ''.pdf'' in
     andthen (upload_pdf_to_s3 W pdf_buffer file_name s3_bucket_name) (\<lambda>pre_signed_url.
     andthen (send_sns_notification L W pre_signed_url sns_topic_arn) (\<lambda>_.
     andthen (lift (py_get detail ''retryRuleName'' PNone)) (\<lambda>retry_rule_name.
     if py_truthy retry_rule_name then
       andthen (remove_retry_event_rule W SNS retry_rule_name) (\<lambda>_.
       ret (Completed ai_insights))
     else ret (Completed ai_insights)))))"

definition handler_try :: "pylib \<Rightarrow> world \<Rightarrow> pyval \<Rightarrow> lambda_context \<Rightarrow> string \<Rightarrow> string \<Rightarrow> flow io" where
  "handler_try L W event context s3_bucket_name sns_topic_arn =
     andthen (lift (py_getitem event ''detail'')) (\<lambda>detail.
     andthen (lift (py_getitem detail ''id'')) (\<lambda>finding_id.
     andthen (lift (py_getitem detail ''service'')) (\<lambda>service.
     andthen (lift (py_getitem service ''detectorId'')) (\<lambda>detector_id.
     andthen (get_guardduty_finding W detector_id finding_id) (\<lambda>finding.
     andthen (lift (py_getitem finding ''Severity'')) (\<lambda>severity.
     andthen (lift (py_lt_float severity 4)) (\<lambda>low.
     if low then
       ret (Returned \<lparr>statusCode = 200,
                      body = json_dumps L (PStr (skip_message L finding_id severity))\<rparr>)
     else
       andthen (get_graph_arn W) (\<lambda>graph_arn.
       andthen (get_all_detective_entities W graph_arn) (\<lambda>detective_entities.
       let finding = convert_to_json_serializable finding;
           detective_entities = convert_to_json_serializable detective_entities
       in
       andthen (invoke_bedrock_model L W finding detective_entities event context)
         (\<lambda>ai_insights.
       if ai_insights = PStr ''rescheduled'' then
         ret (Returned \<lparr>statusCode = 200, body = json_dumps L (PStr ''Event scheduled.'')\<rparr>)
       else
         render_and_publish L W detail finding_id finding s3_bucket_name sns_topic_arn
           ai_insights))))))))))"

text \<open>
  The handler. The two configuration checks stand before the \<open>try\<close>, so their ValueError
  leaves the handler; everything raised inside the \<open>try\<close> becomes a response with status
  500. Creating the five service clients contacts no service.
\<close>

definition lambda_handler :: "pylib \<Rightarrow> world \<Rightarrow> pyval \<Rightarrow> lambda_context \<Rightarrow> response io" where
  "lambda_handler L W event context =
     (let sns_topic_arn = map_of (environ W) ''AI_REPORTS_TOPIC_ARN'';
          s3_bucket_name = map_of (environ W) ''AI_REPORTS_BUCKET_NAME''
      in
      if not_set s3_bucket_name then
        raise (ValueError ''Environment variable AI_REPORTS_BUCKET_NAME is not set'')
      else if not_set sns_topic_arn then
        raise (ValueError ''Environment variable AI_REPORTS_TOPIC_ARN is not set'')
      else
        (case handler_try L W event context (the s3_bucket_name) (the sns_topic_arn) of
           (Inl e, tr) \<Rightarrow>
             (Inr \<lparr>statusCode = 500,
                   body = json_dumps L (PStr (''Error in processing: '' @ str_exn L e))\<rparr>, tr)
         | (Inr (Returned r), tr) \<Rightarrow> (Inr r, tr)
         | (Inr (Completed ai_insights), tr) \<Rightarrow>
             (Inr \<lparr>statusCode = 200, body = json_dumps L ai_insights\<rparr>, tr)))"

section \<open>Vocabulary of the specification\<close>

text \<open>
  The specification speaks of enrichment, analysis, storage, notification and scheduling
  calls. Enrichment is the reading of the entity graph (Detective), analysis the model
  invocation (Bedrock), storage the two S3 requests, notification the SNS publication, and
  scheduling the EventBridge rule and target.
\<close>

fun is_enrichment_call :: "call \<Rightarrow> bool" where
  "is_enrichment_call List_graphs = True"
| "is_enrichment_call (List_members g) = True"
| "is_enrichment_call _ = False"

fun is_analysis_call :: "call \<Rightarrow> bool" where
  "is_analysis_call (Invoke_model m a b) = True"
| "is_analysis_call _ = False"

fun is_storage_call :: "call \<Rightarrow> bool" where
  "is_storage_call (Put_object b k d c) = True"
| "is_storage_call (Generate_presigned_url m b k t) = True"
| "is_storage_call _ = False"

fun is_notification_call :: "call \<Rightarrow> bool" where
  "is_notification_call (Publish t m s j) = True"
| "is_notification_call _ = False"

fun is_schedule_call :: "call \<Rightarrow> bool" where
  "is_schedule_call (Put_rule n s e) = True"
| "is_schedule_call (Put_targets r i a p) = True"
| "is_schedule_call _ = False"

fun is_schedule_deletion :: "call \<Rightarrow> bool" where
  "is_schedule_deletion (Delete_rule n) = True"
| "is_schedule_deletion _ = False"

text \<open>
  The rendering of one line of the analysis text in the words of the specification
  (section 4.5, step 4): a line that, trimmed, is one of the three primary headers is a
  heading in the primary style; one of the three secondary headers, a heading in the
  secondary style; any other line is a body paragraph in the normal style, trimmed. A
  heading is a single cell on a line of its own, a paragraph a multi-line cell.
\<close>

definition primary_headers :: "string list" where
  "primary_headers = [''Analysis:'', ''Remediation Actions:'', ''Recommended Actions:'']"

definition secondary_headers :: "string list" where
  "secondary_headers = [''Entities Involved:'', ''Security Group Impact:'', ''Attempt Status:'']"

definition primary_style :: font where
  "primary_style = Font ''Arial'' ''B'' 12"

definition secondary_style :: font where
  "secondary_style = Font ''Arial'' ''B'' 10"

definition normal_style :: font where
  "normal_style = Font ''Arial'' [] 10"

definition heading :: "font \<Rightarrow> nat \<times> nat \<times> nat \<Rightarrow> string \<Rightarrow> block" where
  "heading f colour txt = Cell_block f colour 0 10 txt True [] []"

definition body_paragraph :: "font \<Rightarrow> nat \<times> nat \<times> nat \<Rightarrow> string \<Rightarrow> block" where
  "body_paragraph f colour txt = Multi_cell_block f colour 0 10 txt"

definition spec_block :: "nat \<times> nat \<times> nat \<Rightarrow> string \<Rightarrow> block" where
  "spec_block colour line =
     (if strip line \<in> set primary_headers then heading primary_style colour (strip line)
      else if strip line \<in> set secondary_headers then heading secondary_style colour (strip line)
      else body_paragraph normal_style colour (strip line))"

fun is_heading :: "block \<Rightarrow> bool" where
  "is_heading (Cell_block f c w h txt nl a l) = True"
| "is_heading _ = False"

fun is_paragraph :: "block \<Rightarrow> bool" where
  "is_paragraph (Multi_cell_block f c w h txt) = True"
| "is_paragraph _ = False"

fun block_font :: "block \<Rightarrow> font option" where
  "block_font (Cell_block f c w h txt nl a l) = Some f"
| "block_font (Multi_cell_block f c w h txt) = Some f"
| "block_font _ = None"

fun block_text :: "block \<Rightarrow> string" where
  "block_text (Cell_block f c w h txt nl a l) = txt"
| "block_text (Multi_cell_block f c w h txt) = txt"
| "block_text _ = []"

text \<open>
  The blocks of the report before and after the analysis body, as the specification lists
  them (section 4.5, steps 1 to 3 and 5): the title with the type label, the line with the
  generation time, the finding summary, the two links in blue, the heading of the analysis;
  and, after the body, the fixed conclusion.
\<close>

definition report_head :: "string \<Rightarrow> datetime \<Rightarrow> string \<Rightarrow> string \<Rightarrow> string \<Rightarrow> block list" where
  "report_head type_label generated details region finding_id =
     [Page_block,
      Cell_block (Font ''Arial'' ''B'' 16) (0, 0, 0) 200 10 ''GuardDuty Finding Report'' True ''C'' [],
      Cell_block (Font ''Arial'' ''B'' 16) (0, 0, 0) 200 10 type_label True ''C'' [],
      Cell_block (Font ''Arial'' [] 12) (0, 0, 0) 200 10
        (''Generated on: '' @ isoformat generated) True ''C'' [],
      Ln_block 10,
      Cell_block (Font ''Arial'' ''B'' 14) (0, 0, 0) 200 10 ''GuardDuty Finding Details'' True [] [],
      Multi_cell_block (Font ''Arial'' [] 12) (0, 0, 0) 0 10 details,
      Ln_block 10,
      Cell_block (Font ''Arial'' ''B'' 12) (0, 0, 0) 200 10 ''Relevant Links'' True [] [],
      Cell_block (Font ''Arial'' [] 12) (0, 0, 255) 200 10 ''View Finding in GuardDuty Console''
        True [] (guardduty_link region finding_id),
      Cell_block (Font ''Arial'' [] 12) (0, 0, 255) 200 10 ''View Finding in Detective Console''
        True [] (detective_link region finding_id),
      Ln_block 10,
      Cell_block (Font ''Arial'' ''B'' 14) (0, 0, 0) 200 10 ''AI Insights'' True [] []]"

definition report_tail :: "block list" where
  "report_tail =
     [Ln_block 10,
      Cell_block (Font ''Arial'' ''B'' 14) (0, 0, 0) 200 10 ''Conclusion and Recommended Actions''
        True [] [],
      Multi_cell_block (Font ''Arial'' [] 12) (0, 0, 0) 0 10 summary_text]"

text \<open>The analysis body of the report: for each section its lines, then a break of 5.\<close>

definition report_body :: "string \<Rightarrow> block list" where
  "report_body ai_insights =
     concat (map (\<lambda>s. map (spec_block (0, 0, 0)) (split_lines s) @ [Ln_block 5])
               (re_split_blank (strip ai_insights)))"

section \<open>A concrete run\<close>

text \<open>
  The fixtures of the repository's tests (\<open>app/tests/conftest.py\<close>): the trigger event,
  the finding behind it with a chosen severity, and services that all answer.
\<close>

definition example_lib :: pylib where
  "example_lib =
     \<lparr>str_float = (\<lambda>x. if x = 39 / 10 then ''3.9'' else if x = 4 then ''4.0''
                        else if x = 7 / 10 then ''0.7'' else ''6.0''),
      str_container = (\<lambda>v. ''[]''),
      str_exn = (\<lambda>e. case e of KeyError k \<Rightarrow> k | IndexError \<Rightarrow> ''list index out of range''
                       | TypeError \<Rightarrow> ''TypeError'' | AttributeError \<Rightarrow> ''AttributeError''
                       | ValueError m \<Rightarrow> m | ClientError c m \<Rightarrow> m | PyException m \<Rightarrow> m
                       | LibraryError m \<Rightarrow> m),
      json_loads = (\<lambda>s. None),
      json_dumps_indent = (\<lambda>n v. ''{}''),
      fpdf_output = (\<lambda>d a bs. ''%PDF'')\<rparr>"

definition example_detail :: pyval where
  "example_detail =
     PDict [(''schemaVersion'', PStr ''2.0''),
            (''accountId'', PStr ''123456789012''),
            (''region'', PStr ''us-east-1''),
            (''id'', PStr ''test_finding_id''),
            (''partition'', PStr ''aws''),
            (''type'', PStr ''UnauthorizedAccess:EC2/SSHBruteForce''),
            (''severity'', PFloat 5),
            (''service'', PDict [(''serviceName'', PStr ''guardduty''),
                                 (''detectorId'', PStr ''sample-detector'')])]"

definition example_event :: pyval where
  "example_event =
     PDict [(''version'', PStr ''0''),
            (''id'', PStr ''sample-event-id''),
            (''detail-type'', PStr ''GuardDuty Finding''),
            (''source'', PStr ''aws.guardduty''),
            (''account'', PStr ''123456789012''),
            (''time'', PStr ''2024-10-18T11:40:01Z''),
            (''region'', PStr ''us-east-1''),
            (''resources'', PList []),
            (''detail'', example_detail)]"

definition example_context :: lambda_context where
  "example_context = \<lparr>function_name = ''test''\<rparr>"

definition example_finding :: "pyval \<Rightarrow> pyval" where
  "example_finding severity =
     PDict [(''Id'', PStr ''test_finding_id''),
            (''Severity'', severity),
            (''Type'', PStr ''UnauthorizedAccess:EC2/SSHBruteForce''),
            (''AccountId'', PStr ''123456789012''),
            (''Region'', PStr ''us-east-1'')]"

definition example_world :: "pyval \<Rightarrow> world" where
  "example_world severity =
     \<lparr>environ = [(''AI_REPORTS_TOPIC_ARN'', ''arn:aws:sns:us-east-1:123456789012:my-test-topic''),
                 (''AI_REPORTS_BUCKET_NAME'', ''test-bucket'')],
      get_findings = (\<lambda>d f. Inr (PDict [(''Findings'', PList [example_finding severity])])),
      list_graphs = Inr (PDict [(''GraphList'', PList [PDict [(''Arn'', PStr ''test_graph_arn'')]])]),
      list_members = (\<lambda>g. Inr (PDict [(''MemberDetails'',
                        PList [PDict [(''AccountId'', PStr ''123456789012'')]])])),
      invoke_model = (\<lambda>m a b. Inr (PDict [(''content'',
                        PList [PDict [(''text'', PStr ''Test AI Insights'')]])])),
      put_rule = (\<lambda>n s e. Inr ()),
      put_targets = (\<lambda>r i a p. Inr ()),
      put_object = (\<lambda>b k d c. Inr ()),
      generate_presigned_url = (\<lambda>m b k t. Inr ''https://dummyurl''),
      publish = (\<lambda>t m s j. Inr ()),
      delete_rule = (\<lambda>n. Inr ()),
      utcnow_retry = \<lparr>year = 2024, month = 10, day = 18, hour = 11, minute = 40, second = 1,
                       microsecond = 0\<rparr>,
      utcnow_pdf = \<lparr>year = 2024, month = 10, day = 18, hour = 11, minute = 40, second = 2,
                     microsecond = 0\<rparr>,
      now_output = \<lparr>year = 2024, month = 10, day = 18, hour = 11, minute = 40, second = 3,
                     microsecond = 0\<rparr>,
      random_draw = 41,
      uuid4 = ''52fdfc07-2182-454f-963f-5f0f9a621d72''\<rparr>"

text \<open>Worlds in which one service refuses.\<close>

definition world_put_rule_fails :: world where
  "world_put_rule_fails =
     (example_world (PInt 6))
       \<lparr>invoke_model := (\<lambda>m a b. Inl (ClientError ''ThrottlingException'' ''Rate exceeded'')),
        put_rule := (\<lambda>n s e. Inl (ClientError ''AccessDeniedException'' ''not authorized''))\<rparr>"

definition world_put_targets_fails :: world where
  "world_put_targets_fails =
     (example_world (PInt 6))
       \<lparr>invoke_model := (\<lambda>m a b. Inl (ClientError ''ThrottlingException'' ''Rate exceeded'')),
        put_targets := (\<lambda>r i a p. Inl (ClientError ''LimitExceededException'' ''too many''))\<rparr>"

definition world_throttled :: world where
  "world_throttled =
     (example_world (PInt 6))
       \<lparr>invoke_model := (\<lambda>m a b. Inl (ClientError ''ThrottlingException'' ''Rate exceeded''))\<rparr>"

definition world_no_graph :: world where
  "world_no_graph = (example_world (PInt 6))\<lparr>list_graphs := Inr (PDict [(''GraphList'', PList [])])\<rparr>"

text \<open>The event that a schedule replays: it names the schedule.\<close>

definition replayed_detail :: pyval where
  "replayed_detail =
     PDict [(''schemaVersion'', PStr ''2.0''),
            (''accountId'', PStr ''123456789012''),
            (''region'', PStr ''us-east-1''),
            (''partition'', PStr ''aws''),
            (''id'', PStr ''test_finding_id''),
            (''service'', PDict [(''detectorId'', PStr ''sample-detector'')]),
            (''retryRuleName'', PStr ''RetryLambdaInvocation-52fdfc07'')]"

definition replayed_event :: pyval where
  "replayed_event =
     PDict [(''version'', PStr ''0''),
            (''id'', PStr ''sample-event-id''),
            (''detail-type'', PStr ''GuardDuty Finding''),
            (''source'', PStr ''aws.guardduty''),
            (''account'', PStr ''123456789012''),
            (''time'', PStr ''2024-10-18T11:40:01Z''),
            (''region'', PStr ''us-east-1''),
            (''resources'', PList []),
            (''detail'', replayed_detail)]"

definition world_put_object_fails :: world where
  "world_put_object_fails =
     (example_world (PInt 6))
       \<lparr>put_object := (\<lambda>b k d c. Inl (ClientError ''AccessDenied'' ''Access Denied''))\<rparr>"

definition world_empty_content :: world where
  "world_empty_content =
     (example_world (PInt 6))\<lparr>invoke_model := (\<lambda>m a b. Inr (PDict [(''content'', PList [])]))\<rparr>"

text \<open>An analysis text: two headed groups, then a header in the wrong case.\<close>

definition example_insights :: string where
  "example_insights =
     ''Analysis:'' @ [CHR 0x0A] @ ''Breach detected.'' @ [CHR 0x0A, CHR 0x0A] @
     ''  Attempt Status:  '' @ [CHR 0x0A] @ ''Blocked.'' @ [CHR 0x0A, CHR '' '', CHR 0x0A] @
     ''analysis:'' @ [CHR 0x0A]"

text \<open>
  A serializer that can be read: the creation time the library stamps, then the text of
  each block on a line of its own. And a world in which the serialization happens one
  second later.
\<close>

definition example_serialize :: "datetime \<Rightarrow> (bool \<times> nat) \<Rightarrow> block list \<Rightarrow> string" where
  "example_serialize created auto bs =
     ''%PDF D:'' @ isoformat created @ [CHR 0x0A] @
     concat (map (\<lambda>b. block_text b @ [CHR 0x0A]) bs)"

definition stamping_lib :: pylib where
  "stamping_lib = example_lib\<lparr>fpdf_output := example_serialize\<rparr>"


section \<open>Properties\<close>

subsection \<open>Sequencing\<close>

lemma andthen_Inr_nil [simp]: "andthen (Inr x, []) f = f x"
  by (cases "f x") simp

lemma andthen_Inr [simp]: "andthen (Inr x, tr) f = (fst (f x), tr @ snd (f x))"
  by (cases "f x") simp

declare andthen.simps(2) [simp del]

lemma catch_Inl [simp]: "catch (Inl e, tr) h = (fst (h e), tr @ snd (h e))"
  by (cases "h e") simp

declare catch.simps(1) [simp del]

lemma andthen_ret [simp]: "andthen (ret x) f = f x"
  by (simp add: ret_def)

lemma andthen_raise [simp]: "andthen (raise e) f = raise e"
  by (simp add: raise_def)

lemma andthen_lift_Inr [simp]: "andthen (lift (Inr x)) f = f x"
  by (simp add: lift_def)

lemma andthen_lift_Inl [simp]: "andthen (lift (Inl e)) f = raise e"
  by (simp add: lift_def raise_def)

lemma andthen_external_Inr [simp]:
  "andthen (external c (Inr x)) f = (fst (f x), c # snd (f x))"
  by (cases "f x") (simp add: external_def)

lemma andthen_external_Inl [simp]: "andthen (external c (Inl e)) f = (Inl e, [c])"
  by (simp add: external_def)

lemma andthen_lift: "andthen (lift r) f = (case r of Inl e \<Rightarrow> raise e | Inr x \<Rightarrow> f x)"
  by (cases r) simp_all

lemma andthen_external:
  "andthen (external c r) f =
     (case r of Inl e \<Rightarrow> (Inl e, [c]) | Inr x \<Rightarrow> (fst (f x), c # snd (f x)))"
  by (cases r) simp_all

lemma io_parts [simp]:
  "fst (ret x) = Inr x" "snd (ret x) = []"
  "fst (raise e) = Inl e" "snd (raise e) = []"
  "fst (lift r) = r" "snd (lift r) = []"
  "fst (external c r) = r" "snd (external c r) = [c]"
  by (simp_all add: ret_def raise_def lift_def external_def)

subsection \<open>The fetch of the finding\<close>

lemma snd_get_guardduty_finding:
  "snd (get_guardduty_finding W detector_id finding_id) = [Get_findings detector_id [finding_id]]"
  by (simp add: get_guardduty_finding_def andthen_external andthen_lift split: sum.splits)

lemma get_guardduty_finding_eq:
  "fst (get_guardduty_finding W detector_id finding_id) = Inr finding \<Longrightarrow>
   get_guardduty_finding W detector_id finding_id =
     (Inr finding, [Get_findings detector_id [finding_id]])"
  using snd_get_guardduty_finding [of W detector_id finding_id] by (simp add: prod_eq_iff)

subsection \<open>The concrete run\<close>

lemma example_lookups:
  "py_getitem example_event ''detail'' = Inr example_detail"
  "py_getitem example_detail ''id'' = Inr (PStr ''test_finding_id'')"
  "py_getitem example_detail ''service'' =
     Inr (PDict [(''serviceName'', PStr ''guardduty''), (''detectorId'', PStr ''sample-detector'')])"
  "py_getitem (PDict [(''serviceName'', PStr ''guardduty''),
       (''detectorId'', PStr ''sample-detector'')]) ''detectorId'' = Inr (PStr ''sample-detector'')"
  by (simp_all add: example_event_def example_detail_def)

lemma example_config:
  "\<not> not_set (map_of (environ (example_world s)) ''AI_REPORTS_BUCKET_NAME'')"
  "\<not> not_set (map_of (environ (example_world s)) ''AI_REPORTS_TOPIC_ARN'')"
  by (simp_all add: example_world_def not_set_def)

lemma example_fetch:
  "fst (get_guardduty_finding (example_world s) d f) = Inr (example_finding s)"
  by (simp add: get_guardduty_finding_def example_world_def)

lemma example_severity:
  "py_getitem (example_finding s) ''Severity'' = Inr s"
  by (simp add: example_finding_def)

subsection \<open>Missing configuration\<close>

text \<open>
  Claim C10. When \<open>AI_REPORTS_BUCKET_NAME\<close> or \<open>AI_REPORTS_TOPIC_ARN\<close> is unset or
  empty, the handler raises a ValueError that nothing catches (the result is the exception,
  not a response, so in particular not the response with status 500), and it has made no
  external call. The bucket name is checked first.
\<close>

theorem lambda_handler_unset_config_raises:
  assumes "not_set (map_of (environ W) ''AI_REPORTS_BUCKET_NAME'')
         \<or> not_set (map_of (environ W) ''AI_REPORTS_TOPIC_ARN'')"
  shows "lambda_handler L W event context =
     (Inl (ValueError
        (if not_set (map_of (environ W) ''AI_REPORTS_BUCKET_NAME'')
         then ''Environment variable AI_REPORTS_BUCKET_NAME is not set''
         else ''Environment variable AI_REPORTS_TOPIC_ARN is not set'')), [])"
  using assms by (auto simp: lambda_handler_def raise_def Let_def)

theorem lambda_handler_unset_config_raises_witness:
  "lambda_handler example_lib ((example_world (PInt 6))\<lparr>environ := []\<rparr>) example_event
     example_context =
   (Inl (ValueError ''Environment variable AI_REPORTS_BUCKET_NAME is not set''), [])"
  using lambda_handler_unset_config_raises
    [of "(example_world (PInt 6))\<lparr>environ := []\<rparr>" example_lib example_event example_context]
  by (simp add: not_set_def)

subsection \<open>Severity gate: skip\<close>

text \<open>
  Claim C1. When the finding that the run fetched has a severity below 4.0, the handler
  returns status 200 with the skip message ("Finding ... has severity of ... not
  processing") as body, and the fetch of the finding is the only external call of the run:
  no call to Detective, Bedrock, EventBridge, S3 or SNS.
\<close>

theorem low_severity_skips:
  assumes "\<not> not_set (map_of (environ W) ''AI_REPORTS_BUCKET_NAME'')"
    and "\<not> not_set (map_of (environ W) ''AI_REPORTS_TOPIC_ARN'')"
    and "py_getitem event ''detail'' = Inr detail"
    and "py_getitem detail ''id'' = Inr finding_id"
    and "py_getitem detail ''service'' = Inr service"
    and "py_getitem service ''detectorId'' = Inr detector_id"
    and "fst (get_guardduty_finding W detector_id finding_id) = Inr finding"
    and "py_getitem finding ''Severity'' = Inr severity"
    and "py_lt_float severity 4 = Inr True"
  shows "lambda_handler L W event context =
     (Inr \<lparr>statusCode = 200,
           body = json_dumps L (PStr (skip_message L finding_id severity))\<rparr>,
      [Get_findings detector_id [finding_id]])"
proof -
  note fetch = get_guardduty_finding_eq [OF assms(7)]
  have "handler_try L W event context
          (the (map_of (environ W) ''AI_REPORTS_BUCKET_NAME''))
          (the (map_of (environ W) ''AI_REPORTS_TOPIC_ARN'')) =
        (Inr (Returned \<lparr>statusCode = 200,
           body = json_dumps L (PStr (skip_message L finding_id severity))\<rparr>),
         [Get_findings detector_id [finding_id]])"
    using assms(3-6,8,9) by (simp add: handler_try_def fetch ret_def)
  then show ?thesis
    using assms(1,2) by (simp add: lambda_handler_def Let_def)
qed

theorem low_severity_skips_witness:
  "lambda_handler example_lib (example_world (PFloat (39 / 10))) example_event example_context =
   (Inr \<lparr>statusCode = 200,
         body = [CHR 0x22] @ ''Finding test_finding_id has severity of 3.9 not processing'' @
                [CHR 0x22]\<rparr>,
    [Get_findings (PStr ''sample-detector'') [PStr ''test_finding_id'']])"
proof -
  have low: "py_lt_float (PFloat (39 / 10)) 4 = Inr True"
    by simp
  have "json_dumps example_lib
          (PStr (skip_message example_lib (PStr ''test_finding_id'') (PFloat (39 / 10)))) =
        [CHR 0x22] @ ''Finding test_finding_id has severity of 3.9 not processing'' @ [CHR 0x22]"
    by (simp add: skip_message_def example_lib_def json_string_def json_escape_def)
  then show ?thesis
    using low_severity_skips [OF example_config example_lookups example_fetch example_severity low,
        of example_lib example_context]
    by simp
qed

subsection \<open>Retry scheduler\<close>

lemma catch_ret:
  "catch m (\<lambda>e. ret v) = ((case fst m of Inl e \<Rightarrow> Inr v | Inr x \<Rightarrow> Inr x), snd m)"
  by (cases m; cases "fst m") (auto simp: ret_def)

lemma schedule_retry_lookups:
  assumes "py_getitem event ''account'' = Inr account_id"
    and "py_getitem event ''region'' = Inr region"
    and "py_getitem event ''detail'' = Inr detail"
    and "py_getitem detail ''id'' = Inr finding_id"
    and "py_getitem detail ''service'' = Inr service"
    and "py_getitem service ''detectorId'' = Inr detector_id"
  shows "schedule_retry L W event context =
     catch (register_retry L W event context
              (add_seconds (utcnow_retry W) (randint 1 600 (random_draw W))) (uuid4 W)
              account_id region finding_id detector_id)
       (\<lambda>e. ret PNone)"
  using assms by (simp add: schedule_retry_def Let_def ret_def)

lemma example_retry_lookups:
  "py_getitem example_event ''account'' = Inr (PStr ''123456789012'')"
  "py_getitem example_event ''region'' = Inr (PStr ''us-east-1'')"
  by (simp_all add: example_event_def)

text \<open>
  Claim C4, as the code has it. When the registration of the schedule raises (the rule,
  the replay or the target), \<open>schedule_retry\<close> does not raise, and it returns \<open>None\<close>:
  the \<open>return "rescheduled"\<close> stands inside the \<open>try\<close>, after the registration.
\<close>

theorem failed_registration_returns_none:
  assumes "py_getitem event ''account'' = Inr account_id"
    and "py_getitem event ''region'' = Inr region"
    and "py_getitem event ''detail'' = Inr detail"
    and "py_getitem detail ''id'' = Inr finding_id"
    and "py_getitem detail ''service'' = Inr service"
    and "py_getitem service ''detectorId'' = Inr detector_id"
    and "fst (register_retry L W event context
           (add_seconds (utcnow_retry W) (randint 1 600 (random_draw W))) (uuid4 W)
           account_id region finding_id detector_id) = Inl e"
  shows "fst (schedule_retry L W event context) = Inr PNone"
  using assms(7) by (simp add: schedule_retry_lookups [OF assms(1-6)] catch_ret)

theorem failed_registration_returns_none_witness:
  "fst (schedule_retry example_lib world_put_targets_fails example_event example_context) = Inr PNone"
proof -
  have "fst (register_retry example_lib world_put_targets_fails example_event example_context
           (add_seconds (utcnow_retry world_put_targets_fails)
              (randint 1 600 (random_draw world_put_targets_fails)))
           (uuid4 world_put_targets_fails)
           (PStr ''123456789012'') (PStr ''us-east-1'') (PStr ''test_finding_id'')
           (PStr ''sample-detector'')) =
        Inl (ClientError ''LimitExceededException'' ''too many'')"
    by (simp add: register_retry_def retry_input_def world_put_targets_fails_def
        example_world_def example_event_def example_detail_def Let_def)
  then show ?thesis
    by (rule failed_registration_returns_none [OF example_retry_lookups example_lookups])
qed

text \<open>
  The claim as the specification words it fails: with a rule that EventBridge refuses, the
  value returned is \<open>None\<close>, not "rescheduled".
\<close>

theorem failed_registration_not_rescheduled:
  "fst (schedule_retry example_lib world_put_rule_fails example_event example_context) = Inr PNone
   \<and> fst (schedule_retry example_lib world_put_rule_fails example_event example_context)
       \<noteq> Inr (PStr ''rescheduled'')"
  by (simp add: schedule_retry_lookups [OF example_retry_lookups example_lookups] catch_ret
      register_retry_def world_put_rule_fails_def example_world_def)

subsection \<open>Results and traces of the stages\<close>

lemma fst_andthen:
  "fst (andthen m f) = (case fst m of Inl e \<Rightarrow> Inl e | Inr x \<Rightarrow> fst (f x))"
  by (cases m; cases "fst m") (auto split: prod.splits)

lemma snd_andthen:
  "snd (andthen m f) = (case fst m of Inl e \<Rightarrow> snd m | Inr x \<Rightarrow> snd m @ snd (f x))"
  by (cases m; cases "fst m") (auto split: prod.splits)

lemma fst_catch:
  "fst (catch m h) = (case fst m of Inl e \<Rightarrow> fst (h e) | Inr x \<Rightarrow> Inr x)"
  by (cases m; cases "fst m") (auto split: prod.splits)

lemma snd_catch:
  "snd (catch m h) = (case fst m of Inl e \<Rightarrow> snd m @ snd (h e) | Inr x \<Rightarrow> snd m)"
  by (cases m; cases "fst m") (auto split: prod.splits)

lemma silent_andthen:
  "snd m = [] \<Longrightarrow> (\<And>x. snd (f x) = []) \<Longrightarrow> snd (andthen m f) = []"
  by (simp add: snd_andthen split: sum.splits)

lemma calls_andthen:
  "\<forall>c\<in>set (snd m). P c \<Longrightarrow> (\<And>x. \<forall>c\<in>set (snd (f x)). P c) \<Longrightarrow>
   \<forall>c\<in>set (snd (andthen m f)). P c"
  by (auto simp: snd_andthen split: sum.splits)

lemma calls_catch:
  "\<forall>c\<in>set (snd m). P c \<Longrightarrow> (\<And>e. \<forall>c\<in>set (snd (h e)). P c) \<Longrightarrow>
   \<forall>c\<in>set (snd (catch m h)). P c"
  by (auto simp: snd_catch split: sum.splits)

lemma snd_get_graph_arn: "snd (get_graph_arn W) = [List_graphs]"
  by (simp add: get_graph_arn_def andthen_external andthen_lift split: sum.splits)

lemma get_graph_arn_eq:
  "fst (get_graph_arn W) = Inr g \<Longrightarrow> get_graph_arn W = (Inr g, [List_graphs])"
  using snd_get_graph_arn [of W] by (simp add: prod_eq_iff)

lemma snd_get_all_detective_entities:
  "snd (get_all_detective_entities W g) = [List_members g]"
  by (simp add: get_all_detective_entities_def andthen_external andthen_lift split: sum.splits)

lemma get_all_detective_entities_eq:
  "fst (get_all_detective_entities W g) = Inr ents \<Longrightarrow>
   get_all_detective_entities W g = (Inr ents, [List_members g])"
  using snd_get_all_detective_entities [of W g] by (simp add: prod_eq_iff)

lemma snd_fmt_get [simp]: "snd (fmt_get L d k dflt) = []"
  by (simp add: fmt_get_def andthen_lift split: sum.splits)

lemma snd_finding_details [simp]: "snd (finding_details L f) = []"
  unfolding finding_details_def by (intro silent_andthen) simp_all

lemma snd_generate_pdf [simp]: "snd (generate_pdf L W a f) = []"
  unfolding generate_pdf_def Let_def by (intro silent_andthen) simp_all

lemma generate_pdf_none: "isl (fst (generate_pdf L W PNone f))"
  unfolding generate_pdf_def Let_def by (simp add: fst_andthen split: sum.splits)

lemma snd_retry_input [simp]: "snd (retry_input ev a r f d i) = []"
  unfolding retry_input_def by (intro silent_andthen) simp_all

lemma register_retry_calls: "\<forall>c\<in>set (snd (register_retry L W ev cx ft i a r f d)). is_schedule_call c"
  unfolding register_retry_def Let_def by (intro calls_andthen) simp_all

lemma register_retry_value:
  "fst (register_retry L W ev cx ft i a r f d) = Inr v \<Longrightarrow> v = PStr ''rescheduled''"
  unfolding register_retry_def Let_def by (auto simp: fst_andthen split: sum.splits)

lemma schedule_retry_calls: "\<forall>c\<in>set (snd (schedule_retry L W ev cx)). is_schedule_call c"
  unfolding schedule_retry_def Let_def
  using register_retry_calls [of L W ev cx]
  by (auto simp: snd_andthen snd_catch split: sum.splits exn.splits prod.splits)

lemma schedule_retry_value:
  "fst (schedule_retry L W ev cx) = Inr v \<Longrightarrow> v = PNone \<or> v = PStr ''rescheduled''"
  unfolding schedule_retry_def Let_def
  by (auto simp: fst_andthen fst_catch split: sum.splits dest: register_retry_value)


lemma lambda_handler_configured:
  assumes "\<not> not_set (map_of (environ W) ''AI_REPORTS_BUCKET_NAME'')"
    and "\<not> not_set (map_of (environ W) ''AI_REPORTS_TOPIC_ARN'')"
  shows "lambda_handler L W event context =
     (case handler_try L W event context (the (map_of (environ W) ''AI_REPORTS_BUCKET_NAME''))
             (the (map_of (environ W) ''AI_REPORTS_TOPIC_ARN'')) of
        (Inl e, tr) \<Rightarrow>
          (Inr \<lparr>statusCode = 500,
                body = json_dumps L (PStr (''Error in processing: '' @ str_exn L e))\<rparr>, tr)
      | (Inr (Returned r), tr) \<Rightarrow> (Inr r, tr)
      | (Inr (Completed ai_insights), tr) \<Rightarrow>
          (Inr \<lparr>statusCode = 200, body = json_dumps L ai_insights\<rparr>, tr))"
  using assms by (simp add: lambda_handler_def Let_def)

lemma snd_lambda_handler_configured:
  assumes "\<not> not_set (map_of (environ W) ''AI_REPORTS_BUCKET_NAME'')"
    and "\<not> not_set (map_of (environ W) ''AI_REPORTS_TOPIC_ARN'')"
  shows "snd (lambda_handler L W event context) =
     snd (handler_try L W event context (the (map_of (environ W) ''AI_REPORTS_BUCKET_NAME''))
             (the (map_of (environ W) ''AI_REPORTS_TOPIC_ARN'')))"
  by (simp add: lambda_handler_configured [OF assms] split: prod.splits sum.splits flow.splits)

lemma handler_try_analyzing:
  assumes "py_getitem event ''detail'' = Inr detail"
    and "py_getitem detail ''id'' = Inr finding_id"
    and "py_getitem detail ''service'' = Inr service"
    and "py_getitem service ''detectorId'' = Inr detector_id"
    and "fst (get_guardduty_finding W detector_id finding_id) = Inr finding"
    and "py_getitem finding ''Severity'' = Inr severity"
    and "py_lt_float severity 4 = Inr False"
    and "fst (get_graph_arn W) = Inr graph_arn"
    and "fst (get_all_detective_entities W graph_arn) = Inr entities"
  shows "handler_try L W event context b t =
     (let K = andthen (invoke_bedrock_model L W (convert_to_json_serializable finding)
                         (convert_to_json_serializable entities) event context)
                (\<lambda>ai_insights.
                   if ai_insights = PStr ''rescheduled'' then
                     ret (Returned \<lparr>statusCode = 200,
                                    body = json_dumps L (PStr ''Event scheduled.'')\<rparr>)
                   else render_and_publish L W detail finding_id
                          (convert_to_json_serializable finding) b t ai_insights)
      in (fst K, Get_findings detector_id [finding_id] # List_graphs #
                 List_members graph_arn # snd K))"
  using assms(1-4,6,7)
  by (simp add: handler_try_def get_guardduty_finding_eq [OF assms(5)]
      get_graph_arn_eq [OF assms(8)] get_all_detective_entities_eq [OF assms(9)] Let_def)

lemma invoke_bedrock_model_throttled:
  assumes "invoke_model W (model_id W) ''application/json''
             (json_dumps L (PDict (body_args L W finding entities))) =
           Inl (ClientError ''ThrottlingException'' msg)"
  shows "invoke_bedrock_model L W finding entities event context =
     (fst (schedule_retry L W event context),
      Invoke_model (model_id W) ''application/json''
        (json_dumps L (PDict (body_args L W finding entities))) #
      snd (schedule_retry L W event context))"
  using assms by (simp add: invoke_bedrock_model_def Let_def external_def del: json_dumps.simps)

lemma json_dumps_event_scheduled:
  "json_dumps L (PStr ''Event scheduled.'') = [CHR 0x22] @ ''Event scheduled.'' @ [CHR 0x22]"
  by (simp add: json_string_def json_escape_def)

lemma randint_range: "a \<le> b \<Longrightarrow> a \<le> randint a b r \<and> randint a b r \<le> b"
proof -
  assume "a \<le> b"
  have "r mod (b - a + 1) < b - a + 1" by simp
  with \<open>a \<le> b\<close> show ?thesis unfolding randint_def by linarith
qed

lemma render_and_publish_none [simp]:
  "snd (render_and_publish L W detail fid f b t PNone) = []"
  using generate_pdf_none [of L W f]
  by (cases "fst (generate_pdf L W PNone f)") (simp_all add: render_and_publish_def snd_andthen)

lemma register_retry_ok:
  assumes "put_rule W (''RetryLambdaInvocation-'' @ i) (cron_expression ft) ''ENABLED'' = Inr ()"
    and "fst (retry_input ev a r f d i) = Inr replay"
    and "put_targets W (''RetryLambdaInvocation-'' @ i) i
           (''arn:aws:lambda:'' @ py_str L r @ '':'' @ py_str L a @ '':function:'' @
            function_name cx) (json_dumps L replay) = Inr ()"
  shows "register_retry L W ev cx ft i a r f d =
     (Inr (PStr ''rescheduled''),
      [Put_rule (''RetryLambdaInvocation-'' @ i) (cron_expression ft) ''ENABLED'',
       Put_targets (''RetryLambdaInvocation-'' @ i) i
         (''arn:aws:lambda:'' @ py_str L r @ '':'' @ py_str L a @ '':function:'' @
          function_name cx) (json_dumps L replay)])"
proof -
  have "retry_input ev a r f d i = (Inr replay, [])"
    using assms(2) by (simp add: prod_eq_iff)
  then show ?thesis
    using assms(1,3) by (simp add: register_retry_def Let_def del: json_dumps.simps)
qed

lemma schedule_call_kind:
  "is_schedule_call c \<Longrightarrow>
   \<not> is_storage_call c \<and> \<not> is_notification_call c \<and> \<not> is_enrichment_call c \<and>
   \<not> is_analysis_call c"
  by (cases c) simp_all

lemma example_graph:
  "list_graphs W = list_graphs (example_world s) \<Longrightarrow>
   fst (get_graph_arn W) = Inr (PStr ''test_graph_arn'')"
  by (simp add: get_graph_arn_def example_world_def)

lemma example_entities:
  "list_members W = list_members (example_world s) \<Longrightarrow>
   fst (get_all_detective_entities W g) =
     Inr (PList [PDict [(''AccountId'', PStr ''123456789012'')]])"
  by (simp add: get_all_detective_entities_def example_world_def)

lemma example_not_low: "py_lt_float (PInt 6) 4 = Inr False"
  by simp

lemma example_replay:
  "fst (retry_input example_event (PStr ''123456789012'') (PStr ''us-east-1'')
          (PStr ''test_finding_id'') (PStr ''sample-detector'') u) =
   Inr (PDict
        [(''version'', PStr ''0''),
         (''id'', PStr ''sample-event-id''),
         (''detail-type'', PStr ''GuardDuty Finding''),
         (''source'', PStr ''aws.guardduty''),
         (''account'', PStr ''123456789012''),
         (''time'', PStr ''2024-10-18T11:40:01Z''),
         (''region'', PStr ''us-east-1''),
         (''resources'', PList []),
         (''detail'', PDict
            [(''schemaVersion'', PStr ''2.0''),
             (''accountId'', PStr ''123456789012''),
             (''region'', PStr ''us-east-1''),
             (''partition'', PStr ''aws''),
             (''id'', PStr ''test_finding_id''),
             (''service'', PDict [(''detectorId'', PStr ''sample-detector'')]),
             (''retryRuleName'', PStr (''RetryLambdaInvocation-'' @ u))])])"
  by (simp add: retry_input_def example_event_def example_detail_def)

lemma fst_lambda_handler_configured:
  assumes "\<not> not_set (map_of (environ W) ''AI_REPORTS_BUCKET_NAME'')"
    and "\<not> not_set (map_of (environ W) ''AI_REPORTS_TOPIC_ARN'')"
  shows "fst (lambda_handler L W event context) =
     (case fst (handler_try L W event context (the (map_of (environ W) ''AI_REPORTS_BUCKET_NAME''))
             (the (map_of (environ W) ''AI_REPORTS_TOPIC_ARN''))) of
        Inl e \<Rightarrow>
          Inr \<lparr>statusCode = 500,
               body = json_dumps L (PStr (''Error in processing: '' @ str_exn L e))\<rparr>
      | Inr (Returned r) \<Rightarrow> Inr r
      | Inr (Completed ai_insights) \<Rightarrow>
          Inr \<lparr>statusCode = 200, body = json_dumps L ai_insights\<rparr>)"
  by (simp add: lambda_handler_configured [OF assms] split: prod.splits sum.splits flow.splits
      del: json_dumps.simps)

lemma example_str_exn:
  "str_exn example_lib AttributeError = ''AttributeError''"
  "str_exn example_lib IndexError = ''list index out of range''"
  "str_exn example_lib (PyException m) = m"
  by (simp_all add: example_lib_def)

lemma put_rule_fails_none:
  "fst (schedule_retry example_lib world_put_rule_fails example_event example_context) = Inr PNone"
  by (simp add: schedule_retry_lookups [OF example_retry_lookups example_lookups] catch_ret
      register_retry_def world_put_rule_fails_def example_world_def)

lemma convert_example_finding:
  "convert_to_json_serializable (example_finding s) =
     PDict [(''Id'', PStr ''test_finding_id''),
            (''Severity'', convert_to_json_serializable s),
            (''Type'', PStr ''UnauthorizedAccess:EC2/SSHBruteForce''),
            (''AccountId'', PStr ''123456789012''),
            (''Region'', PStr ''us-east-1'')]"
  by (simp add: example_finding_def)

lemma generate_pdf_none_example:
  "fst (generate_pdf example_lib W PNone (convert_to_json_serializable (example_finding (PInt 6)))) =
     Inl AttributeError"
  by (simp add: convert_example_finding generate_pdf_def finding_details_def fmt_get_def Let_def)


lemma snd_invoke_bedrock_model:
  "\<exists>t. snd (invoke_bedrock_model L W f e ev cx) =
         Invoke_model (model_id W) ''application/json''
           (json_dumps L (PDict (body_args L W f e))) # t
       \<and> (\<forall>c\<in>set t. is_schedule_call c)"
proof (cases "invoke_model W (model_id W) ''application/json''
                (json_dumps L (PDict (body_args L W f e)))")
  case (Inl x)
  then show ?thesis
    using schedule_retry_calls [of L W ev cx]
    by (cases x) (simp_all add: invoke_bedrock_model_def Let_def external_def
        del: json_dumps.simps)
next
  case (Inr v)
  then show ?thesis
    using schedule_retry_calls [of L W ev cx]
    by (simp add: invoke_bedrock_model_def Let_def snd_catch snd_andthen fst_andthen
        split: sum.splits exn.splits del: json_dumps.simps)
qed

lemma snd_upload_pdf_to_s3:
  "\<forall>c\<in>set (snd (upload_pdf_to_s3 W buf name bucket)). is_storage_call c"
  by (simp add: upload_pdf_to_s3_def snd_andthen split: sum.splits)

lemma snd_send_sns_notification:
  "snd (send_sns_notification L W url topic) =
     [Publish topic (json_dumps L (message_structure (replace_space (strip url))))
        ''GuardDuty Finding Enrichment Report'' ''json'']"
  by (simp add: send_sns_notification_def Let_def del: json_dumps.simps)

lemma snd_remove_retry_event_rule:
  "snd (remove_retry_event_rule W cl name) = (if cl = Events then [Delete_rule name] else [])"
  by (simp add: remove_retry_event_rule_def client_delete_rule_def snd_catch split: sum.splits)

lemma storage_call_kind:
  "is_storage_call c \<Longrightarrow>
   \<not> is_enrichment_call c \<and> \<not> is_analysis_call c \<and> \<not> is_schedule_call c \<and>
   \<not> is_notification_call c"
  by (cases c) simp_all

lemma render_and_publish_calls:
  "\<forall>c\<in>set (snd (render_and_publish L W detail fid f b t ai)).
     \<not> is_enrichment_call c \<and> \<not> is_analysis_call c \<and> \<not> is_schedule_call c"
proof -
  have up: "\<And>buf name c. c \<in> set (snd (upload_pdf_to_s3 W buf name b)) \<Longrightarrow>
      \<not> is_enrichment_call c \<and> \<not> is_analysis_call c \<and> \<not> is_schedule_call c"
    using snd_upload_pdf_to_s3 storage_call_kind by blast
  show ?thesis
    unfolding render_and_publish_def Let_def
    by (auto simp: snd_andthen snd_send_sns_notification snd_remove_retry_event_rule
        split: sum.splits dest: up simp del: json_dumps.simps)
qed

lemma get_graph_arn_split: "get_graph_arn W = (fst (get_graph_arn W), [List_graphs])"
  using snd_get_graph_arn [of W] by (simp add: prod_eq_iff)

lemma get_all_detective_entities_split:
  "get_all_detective_entities W g = (fst (get_all_detective_entities W g), [List_members g])"
  using snd_get_all_detective_entities [of W g] by (simp add: prod_eq_iff)

lemma example_exactly_four: "py_lt_float (PFloat 4) 4 = Inr False"
  by simp


lemma py_get_present: "py_getitem d k = Inr v \<Longrightarrow> py_get d k dflt = Inr v"
  by (cases d) (auto split: option.splits)

lemma fst_remove_retry_event_rule [simp]: "fst (remove_retry_event_rule W cl name) = Inr ()"
  by (simp add: remove_retry_event_rule_def client_delete_rule_def fst_catch split: sum.splits)

lemma deletion_call_kind:
  "is_schedule_call c \<Longrightarrow> \<not> is_schedule_deletion c"
  "is_storage_call c \<Longrightarrow> \<not> is_schedule_deletion c"
  by (cases c; simp)+

lemma invoke_bedrock_model_no_deletion:
  "filter is_schedule_deletion (snd (invoke_bedrock_model L W f e ev cx)) = []"
proof -
  obtain t where "snd (invoke_bedrock_model L W f e ev cx) =
      Invoke_model (model_id W) ''application/json''
        (json_dumps L (PDict (body_args L W f e))) # t"
    and "\<forall>c\<in>set t. is_schedule_call c"
    using snd_invoke_bedrock_model by blast
  then show ?thesis
    by (auto simp: filter_empty_conv dest: deletion_call_kind simp del: json_dumps.simps)
qed

lemma upload_pdf_to_s3_no_deletion:
  "filter is_schedule_deletion (snd (upload_pdf_to_s3 W buf name b)) = []"
  using snd_upload_pdf_to_s3 [of W buf name b]
  by (auto simp: filter_empty_conv dest: deletion_call_kind)

lemma replayed_lookups:
  "py_getitem replayed_event ''detail'' = Inr replayed_detail"
  "py_getitem replayed_detail ''id'' = Inr (PStr ''test_finding_id'')"
  "py_getitem replayed_detail ''service'' = Inr (PDict [(''detectorId'', PStr ''sample-detector'')])"
  "py_getitem (PDict [(''detectorId'', PStr ''sample-detector'')]) ''detectorId'' =
     Inr (PStr ''sample-detector'')"
  by (simp_all add: replayed_event_def replayed_detail_def)

lemma replayed_marker:
  "py_getitem replayed_detail ''retryRuleName'' = Inr (PStr ''RetryLambdaInvocation-52fdfc07'')"
  by (simp add: replayed_detail_def)

lemma example_invoke:
  "invoke_model W = invoke_model (example_world s) \<Longrightarrow>
   fst (invoke_bedrock_model L W f e ev cx) = Inr (PStr ''Test AI Insights'')"
  by (simp add: invoke_bedrock_model_def Let_def example_world_def external_def
      del: json_dumps.simps)

lemma example_generate_pdf:
  "fst (generate_pdf example_lib W (PStr t) (convert_to_json_serializable (example_finding s))) =
     Inr ''%PDF''"
  by (simp add: convert_example_finding generate_pdf_def finding_details_def fmt_get_def Let_def
      example_lib_def)

lemma example_upload:
  "put_object W = put_object (example_world s) \<Longrightarrow>
   generate_presigned_url W = generate_presigned_url (example_world s) \<Longrightarrow>
   fst (upload_pdf_to_s3 W buf name b) = Inr ''https://dummyurl''"
  by (simp add: upload_pdf_to_s3_def example_world_def)

lemma example_send:
  "publish W = publish (example_world s) \<Longrightarrow> fst (send_sns_notification L W url t) = Inr ()"
  by (simp add: send_sns_notification_def Let_def example_world_def del: json_dumps.simps)


lemma replace_space_no_space: "CHR '' '' \<notin> set (replace_space s)"
  by (induction s) auto

lemma replace_space_id: "CHR '' '' \<notin> set s \<Longrightarrow> replace_space s = s"
  by (induction s) auto

lemma isspace_space: "isspace CHR '' ''"
  by (simp add: isspace_def)

lemma dropWhile_none: "\<forall>c\<in>set s. \<not> P c \<Longrightarrow> dropWhile P s = s"
  by (cases s) simp_all

lemma strip_id: "\<forall>c\<in>set s. \<not> isspace c \<Longrightarrow> strip s = s"
  by (simp add: strip_def dropWhile_none)

lemma encoded_url_id: "\<forall>c\<in>set url. \<not> isspace c \<Longrightarrow> replace_space (strip url) = url"
  using isspace_space by (auto simp: strip_id intro!: replace_space_id)

lemma invoke_bedrock_model_not_published:
  "filter (\<lambda>c. is_storage_call c \<or> is_notification_call c)
     (snd (invoke_bedrock_model L W f e ev cx)) = []"
proof -
  obtain t where "snd (invoke_bedrock_model L W f e ev cx) =
      Invoke_model (model_id W) ''application/json''
        (json_dumps L (PDict (body_args L W f e))) # t"
    and "\<forall>c\<in>set t. is_schedule_call c"
    using snd_invoke_bedrock_model by blast
  then show ?thesis
    by (auto simp: filter_empty_conv dest: schedule_call_kind simp del: json_dumps.simps)
qed

lemma upload_pdf_to_s3_ok:
  assumes "put_object W bucket name buf ''application/pdf'' = Inr ()"
    and "generate_presigned_url W ''get_object'' bucket name 3600 = Inr url"
  shows "upload_pdf_to_s3 W buf name bucket =
     (Inr url, [Put_object bucket name buf ''application/pdf'',
                Generate_presigned_url ''get_object'' bucket name 3600])"
  using assms by (simp add: upload_pdf_to_s3_def)


subsection \<open>Throttled analysis\<close>

text \<open>
  Claim C2, as the code has it. In a run that reaches the analysis and is answered with a
  ThrottlingException, no call goes to S3 or SNS, whatever happens next, and the delay
  drawn for the retry lies between 1 and 600 seconds. When moreover the registration
  succeeds (the event carries the fields that are replayed, and EventBridge accepts the
  rule and its target), exactly one rule with one target is created, for the time the
  delay gives, and the handler returns status 200 with the body "Event scheduled.".
\<close>

theorem throttled_run_reschedules:
  assumes "\<not> not_set (map_of (environ W) ''AI_REPORTS_BUCKET_NAME'')"
    and "\<not> not_set (map_of (environ W) ''AI_REPORTS_TOPIC_ARN'')"
    and "py_getitem event ''detail'' = Inr detail"
    and "py_getitem detail ''id'' = Inr finding_id"
    and "py_getitem detail ''service'' = Inr service"
    and "py_getitem service ''detectorId'' = Inr detector_id"
    and "fst (get_guardduty_finding W detector_id finding_id) = Inr finding"
    and "py_getitem finding ''Severity'' = Inr severity"
    and "py_lt_float severity 4 = Inr False"
    and "fst (get_graph_arn W) = Inr graph_arn"
    and "fst (get_all_detective_entities W graph_arn) = Inr entities"
    and "invoke_model W (model_id W) ''application/json''
           (json_dumps L (PDict (body_args L W (convert_to_json_serializable finding)
              (convert_to_json_serializable entities)))) =
         Inl (ClientError ''ThrottlingException'' msg)"
  shows "(\<forall>c\<in>set (snd (lambda_handler L W event context)).
            \<not> is_storage_call c \<and> \<not> is_notification_call c)
       \<and> 1 \<le> randint 1 600 (random_draw W) \<and> randint 1 600 (random_draw W) \<le> 600
       \<and> (py_getitem event ''account'' = Inr account_id \<longrightarrow>
          py_getitem event ''region'' = Inr region \<longrightarrow>
          fst (retry_input event account_id region finding_id detector_id (uuid4 W)) = Inr replay \<longrightarrow>
          put_rule W (''RetryLambdaInvocation-'' @ uuid4 W)
            (cron_expression (add_seconds (utcnow_retry W) (randint 1 600 (random_draw W))))
            ''ENABLED'' = Inr () \<longrightarrow>
          put_targets W (''RetryLambdaInvocation-'' @ uuid4 W) (uuid4 W)
            (''arn:aws:lambda:'' @ py_str L region @ '':'' @ py_str L account_id @
             '':function:'' @ function_name context) (json_dumps L replay) = Inr () \<longrightarrow>
          lambda_handler L W event context =
            (Inr \<lparr>statusCode = 200, body = [CHR 0x22] @ ''Event scheduled.'' @ [CHR 0x22]\<rparr>,
             [Get_findings detector_id [finding_id],
              List_graphs,
              List_members graph_arn,
              Invoke_model (model_id W) ''application/json''
                (json_dumps L (PDict (body_args L W (convert_to_json_serializable finding)
                   (convert_to_json_serializable entities)))),
              Put_rule (''RetryLambdaInvocation-'' @ uuid4 W)
                (cron_expression (add_seconds (utcnow_retry W) (randint 1 600 (random_draw W))))
                ''ENABLED'',
              Put_targets (''RetryLambdaInvocation-'' @ uuid4 W) (uuid4 W)
                (''arn:aws:lambda:'' @ py_str L region @ '':'' @ py_str L account_id @
                 '':function:'' @ function_name context) (json_dumps L replay)]))"
proof -
  note cfg = assms(1,2)
  note reach = handler_try_analyzing [OF assms(3-11)]
  note thr = invoke_bedrock_model_throttled [OF assms(12)]
  let ?S = "schedule_retry L W event context"
  have quiet: "\<forall>c\<in>set (snd (lambda_handler L W event context)).
          \<not> is_storage_call c \<and> \<not> is_notification_call c"
  proof (cases "fst ?S")
    case (Inl e)
    then show ?thesis
      using schedule_retry_calls [of L W event "context"]
      by (auto simp: snd_lambda_handler_configured [OF cfg] reach thr Let_def snd_andthen
          simp del: json_dumps.simps dest: schedule_call_kind)
  next
    case (Inr v)
    then have "v = PNone \<or> v = PStr ''rescheduled''"
      by (rule schedule_retry_value)
    then show ?thesis
      using Inr schedule_retry_calls [of L W event "context"]
      by (auto simp: snd_lambda_handler_configured [OF cfg] reach thr Let_def snd_andthen
          simp del: json_dumps.simps dest: schedule_call_kind)
  qed
  have range: "1 \<le> randint 1 600 (random_draw W)" "randint 1 600 (random_draw W) \<le> 600"
    using randint_range [of 1 600 "random_draw W"] by simp_all
  { assume acc: "py_getitem event ''account'' = Inr account_id"
    and reg: "py_getitem event ''region'' = Inr region"
    and rep: "fst (retry_input event account_id region finding_id detector_id (uuid4 W)) = Inr replay"
    and pr: "put_rule W (''RetryLambdaInvocation-'' @ uuid4 W)
            (cron_expression (add_seconds (utcnow_retry W) (randint 1 600 (random_draw W))))
            ''ENABLED'' = Inr ()"
    and pt: "put_targets W (''RetryLambdaInvocation-'' @ uuid4 W) (uuid4 W)
            (''arn:aws:lambda:'' @ py_str L region @ '':'' @ py_str L account_id @
             '':function:'' @ function_name context) (json_dumps L replay) = Inr ()"
  have S: "schedule_retry L W event context =
     (Inr (PStr ''rescheduled''),
      [Put_rule (''RetryLambdaInvocation-'' @ uuid4 W)
         (cron_expression (add_seconds (utcnow_retry W) (randint 1 600 (random_draw W))))
         ''ENABLED'',
       Put_targets (''RetryLambdaInvocation-'' @ uuid4 W) (uuid4 W)
         (''arn:aws:lambda:'' @ py_str L region @ '':'' @ py_str L account_id @
          '':function:'' @ function_name context) (json_dumps L replay)])"
    unfolding schedule_retry_lookups [OF acc reg assms(3-6)] register_retry_ok [OF pr rep pt]
    by (simp only: catch.simps)
  have "handler_try L W event context
          (the (map_of (environ W) ''AI_REPORTS_BUCKET_NAME''))
          (the (map_of (environ W) ''AI_REPORTS_TOPIC_ARN'')) =
        (Inr (Returned \<lparr>statusCode = 200, body = json_dumps L (PStr ''Event scheduled.'')\<rparr>),
         [Get_findings detector_id [finding_id],
              List_graphs,
              List_members graph_arn,
              Invoke_model (model_id W) ''application/json''
                (json_dumps L (PDict (body_args L W (convert_to_json_serializable finding)
                   (convert_to_json_serializable entities)))),
              Put_rule (''RetryLambdaInvocation-'' @ uuid4 W)
                (cron_expression (add_seconds (utcnow_retry W) (randint 1 600 (random_draw W))))
                ''ENABLED'',
              Put_targets (''RetryLambdaInvocation-'' @ uuid4 W) (uuid4 W)
                (''arn:aws:lambda:'' @ py_str L region @ '':'' @ py_str L account_id @
                 '':function:'' @ function_name context) (json_dumps L replay)])"
    by (simp add: reach thr S Let_def del: json_dumps.simps)
  then have "lambda_handler L W event context =
            (Inr \<lparr>statusCode = 200, body = [CHR 0x22] @ ''Event scheduled.'' @ [CHR 0x22]\<rparr>,
             [Get_findings detector_id [finding_id],
              List_graphs,
              List_members graph_arn,
              Invoke_model (model_id W) ''application/json''
                (json_dumps L (PDict (body_args L W (convert_to_json_serializable finding)
                   (convert_to_json_serializable entities)))),
              Put_rule (''RetryLambdaInvocation-'' @ uuid4 W)
                (cron_expression (add_seconds (utcnow_retry W) (randint 1 600 (random_draw W))))
                ''ENABLED'',
              Put_targets (''RetryLambdaInvocation-'' @ uuid4 W) (uuid4 W)
                (''arn:aws:lambda:'' @ py_str L region @ '':'' @ py_str L account_id @
                 '':function:'' @ function_name context) (json_dumps L replay)])"
    by (simp add: lambda_handler_configured [OF cfg] json_dumps_event_scheduled
        del: json_dumps.simps) }
  with quiet range show ?thesis
    by blast
qed

theorem throttled_run_reschedules_witness:
  "fst (lambda_handler example_lib world_throttled example_event example_context) =
     Inr \<lparr>statusCode = 200, body = [CHR 0x22] @ ''Event scheduled.'' @ [CHR 0x22]\<rparr>
   \<and> map (\<lambda>c. case c of Put_rule n s e \<Rightarrow> (n, s) | Put_targets r i a p \<Rightarrow> (r, a) | _ \<Rightarrow> ([], []))
       (filter is_schedule_call
          (snd (lambda_handler example_lib world_throttled example_event example_context))) =
     [(''RetryLambdaInvocation-52fdfc07-2182-454f-963f-5f0f9a621d72'', ''cron(40 11 18 10 ? 2024)''),
      (''RetryLambdaInvocation-52fdfc07-2182-454f-963f-5f0f9a621d72'',
       ''arn:aws:lambda:us-east-1:123456789012:function:test'')]
   \<and> filter is_storage_call
       (snd (lambda_handler example_lib world_throttled example_event example_context)) = []
   \<and> filter is_notification_call
       (snd (lambda_handler example_lib world_throttled example_event example_context)) = []"
proof -
  have cfg: "\<not> not_set (map_of (environ world_throttled) ''AI_REPORTS_BUCKET_NAME'')"
    "\<not> not_set (map_of (environ world_throttled) ''AI_REPORTS_TOPIC_ARN'')"
    by (simp_all add: world_throttled_def example_world_def not_set_def)
  have fetch: "fst (get_guardduty_finding world_throttled (PStr ''sample-detector'')
      (PStr ''test_finding_id'')) = Inr (example_finding (PInt 6))"
    by (simp add: get_guardduty_finding_def world_throttled_def example_world_def)
  have graph: "fst (get_graph_arn world_throttled) = Inr (PStr ''test_graph_arn'')"
    by (rule example_graph [of _ "PInt 6"]) (simp add: world_throttled_def)
  have ents: "fst (get_all_detective_entities world_throttled (PStr ''test_graph_arn'')) =
     Inr (PList [PDict [(''AccountId'', PStr ''123456789012'')]])"
    by (rule example_entities [of _ "PInt 6"]) (simp add: world_throttled_def)
  have thr: "invoke_model world_throttled (model_id world_throttled) ''application/json''
           (json_dumps example_lib (PDict (body_args example_lib world_throttled
              (convert_to_json_serializable (example_finding (PInt 6)))
              (convert_to_json_serializable
                 (PList [PDict [(''AccountId'', PStr ''123456789012'')]]))))) =
         Inl (ClientError ''ThrottlingException'' ''Rate exceeded'')"
    by (simp add: world_throttled_def del: json_dumps.simps)
  have u: "uuid4 world_throttled = ''52fdfc07-2182-454f-963f-5f0f9a621d72''"
    and pr: "\<And>n s e. put_rule world_throttled n s e = Inr ()"
    and pt: "\<And>r i a p. put_targets world_throttled r i a p = Inr ()"
    by (simp_all add: world_throttled_def example_world_def)
  have cron: "cron_expression (add_seconds (utcnow_retry world_throttled)
       (randint 1 600 (random_draw world_throttled))) = ''cron(40 11 18 10 ? 2024)''"
    by (simp add: cron_expression_def add_seconds_def randint_def world_throttled_def
        example_world_def Let_def str_nat.simps)
  let ?replay = "PDict
        [(''version'', PStr ''0''),
         (''id'', PStr ''sample-event-id''),
         (''detail-type'', PStr ''GuardDuty Finding''),
         (''source'', PStr ''aws.guardduty''),
         (''account'', PStr ''123456789012''),
         (''time'', PStr ''2024-10-18T11:40:01Z''),
         (''region'', PStr ''us-east-1''),
         (''resources'', PList []),
         (''detail'', PDict
            [(''schemaVersion'', PStr ''2.0''),
             (''accountId'', PStr ''123456789012''),
             (''region'', PStr ''us-east-1''),
             (''partition'', PStr ''aws''),
             (''id'', PStr ''test_finding_id''),
             (''service'', PDict [(''detectorId'', PStr ''sample-detector'')]),
             (''retryRuleName'', PStr (''RetryLambdaInvocation-'' @ uuid4 world_throttled))])]"
  note inst = throttled_run_reschedules [OF cfg example_lookups fetch example_severity
        example_not_low graph ents thr,
        of example_context "PStr ''123456789012''" "PStr ''us-east-1''" ?replay]
  have run: "lambda_handler example_lib world_throttled example_event example_context =
      (Inr \<lparr>statusCode = 200, body = [CHR 0x22] @ ''Event scheduled.'' @ [CHR 0x22]\<rparr>,
       [Get_findings (PStr ''sample-detector'') [PStr ''test_finding_id''],
        List_graphs,
        List_members (PStr ''test_graph_arn''),
        Invoke_model (model_id world_throttled) ''application/json''
          (json_dumps example_lib (PDict (body_args example_lib world_throttled
             (convert_to_json_serializable (example_finding (PInt 6)))
             (convert_to_json_serializable
                (PList [PDict [(''AccountId'', PStr ''123456789012'')]]))))),
        Put_rule (''RetryLambdaInvocation-'' @ uuid4 world_throttled)
          (cron_expression (add_seconds (utcnow_retry world_throttled)
             (randint 1 600 (random_draw world_throttled))))
          ''ENABLED'',
        Put_targets (''RetryLambdaInvocation-'' @ uuid4 world_throttled) (uuid4 world_throttled)
          (''arn:aws:lambda:'' @ py_str example_lib (PStr ''us-east-1'') @ '':'' @
           py_str example_lib (PStr ''123456789012'') @ '':function:'' @
           function_name example_context) (json_dumps example_lib ?replay)])"
    using inst example_retry_lookups example_replay [of "uuid4 world_throttled"] pr pt
    by blast
  show ?thesis
    unfolding run cron u by (simp add: example_context_def del: json_dumps.simps)
qed

text \<open>
  The claim as the specification words it fails when EventBridge refuses the rule: no
  schedule exists, \<open>schedule_retry\<close> returns \<open>None\<close>, the renderer raises on it, and
  the handler answers with status 500.
\<close>

theorem throttled_run_unregistered_fails:
  "fst (lambda_handler example_lib world_put_rule_fails example_event example_context) =
     Inr \<lparr>statusCode = 500,
          body = [CHR 0x22] @ ''Error in processing: AttributeError'' @ [CHR 0x22]\<rparr>"
proof -
  let ?W = world_put_rule_fails
  have cfg: "\<not> not_set (map_of (environ ?W) ''AI_REPORTS_BUCKET_NAME'')"
    "\<not> not_set (map_of (environ ?W) ''AI_REPORTS_TOPIC_ARN'')"
    by (simp_all add: world_put_rule_fails_def example_world_def not_set_def)
  have fetch: "fst (get_guardduty_finding ?W (PStr ''sample-detector'')
      (PStr ''test_finding_id'')) = Inr (example_finding (PInt 6))"
    by (simp add: get_guardduty_finding_def world_put_rule_fails_def example_world_def)
  have graph: "fst (get_graph_arn ?W) = Inr (PStr ''test_graph_arn'')"
    by (rule example_graph [of _ "PInt 6"]) (simp add: world_put_rule_fails_def)
  have ents: "fst (get_all_detective_entities ?W (PStr ''test_graph_arn'')) =
     Inr (PList [PDict [(''AccountId'', PStr ''123456789012'')]])"
    by (rule example_entities [of _ "PInt 6"]) (simp add: world_put_rule_fails_def)
  have thr: "invoke_model ?W (model_id ?W) ''application/json''
           (json_dumps example_lib (PDict (body_args example_lib ?W
              (convert_to_json_serializable (example_finding (PInt 6)))
              (convert_to_json_serializable
                 (PList [PDict [(''AccountId'', PStr ''123456789012'')]]))))) =
         Inl (ClientError ''ThrottlingException'' ''Rate exceeded'')"
    by (simp add: world_put_rule_fails_def del: json_dumps.simps)
  have "fst (handler_try example_lib ?W example_event example_context
          (the (map_of (environ ?W) ''AI_REPORTS_BUCKET_NAME''))
          (the (map_of (environ ?W) ''AI_REPORTS_TOPIC_ARN''))) = Inl AttributeError"
    unfolding handler_try_analyzing [OF example_lookups fetch example_severity example_not_low
        graph ents] Let_def fst_conv fst_andthen invoke_bedrock_model_throttled [OF thr]
      put_rule_fails_none
    by (simp add: render_and_publish_def fst_andthen generate_pdf_none_example
        del: json_dumps.simps)
  then show ?thesis
    by (simp add: fst_lambda_handler_configured [OF cfg] example_str_exn json_string_def
        json_escape_def)
qed

subsection \<open>Severity gate: continue\<close>

text \<open>
  Claim C8, as the code has it. For a fetched finding whose severity is not below 4.0
  (4.0 itself included), the run lists the graphs exactly once, directly after the fetch.
  When no graph is found, or the listing fails, the run stops there; otherwise it lists the
  members of the graph exactly once, and stops if that fails. When both succeed, the
  analysis is invoked exactly once, directly after them, and no later call of the run is an
  enrichment or an analysis call.
\<close>

theorem gate_open_enriches_then_analyzes:
  assumes "\<not> not_set (map_of (environ W) ''AI_REPORTS_BUCKET_NAME'')"
    and "\<not> not_set (map_of (environ W) ''AI_REPORTS_TOPIC_ARN'')"
    and "py_getitem event ''detail'' = Inr detail"
    and "py_getitem detail ''id'' = Inr finding_id"
    and "py_getitem detail ''service'' = Inr service"
    and "py_getitem service ''detectorId'' = Inr detector_id"
    and "fst (get_guardduty_finding W detector_id finding_id) = Inr finding"
    and "py_getitem finding ''Severity'' = Inr severity"
    and "py_lt_float severity 4 = Inr False"
  shows "\<exists>rest. snd (lambda_handler L W event context) =
            Get_findings detector_id [finding_id] # List_graphs # rest
       \<and> (case fst (get_graph_arn W) of
            Inl e \<Rightarrow> rest = []
          | Inr graph_arn \<Rightarrow>
              (case fst (get_all_detective_entities W graph_arn) of
                 Inl e \<Rightarrow> rest = [List_members graph_arn]
               | Inr entities \<Rightarrow>
                   \<exists>later. rest =
                       List_members graph_arn #
                       Invoke_model (model_id W) ''application/json''
                         (json_dumps L (PDict (body_args L W
                            (convert_to_json_serializable finding)
                            (convert_to_json_serializable entities)))) # later
                     \<and> (\<forall>c\<in>set later. \<not> is_enrichment_call c \<and> \<not> is_analysis_call c)))"
proof -
  note tr = snd_lambda_handler_configured [OF assms(1,2)]
  note fetch = get_guardduty_finding_eq [OF assms(7)]
  show ?thesis
  proof (cases "fst (get_graph_arn W)")
    case (Inl e)
    then have "get_graph_arn W = (Inl e, [List_graphs])"
      using get_graph_arn_split [of W] by simp
    then show ?thesis
      using assms(3-6,8,9) Inl by (simp add: tr handler_try_def fetch)
  next
    case g: (Inr graph_arn)
    note graph = get_graph_arn_eq [OF g]
    show ?thesis
    proof (cases "fst (get_all_detective_entities W graph_arn)")
      case (Inl e)
      then have "get_all_detective_entities W graph_arn = (Inl e, [List_members graph_arn])"
        using get_all_detective_entities_split [of W graph_arn] by simp
      then show ?thesis
        using assms(3-6,8,9) g Inl by (simp add: tr handler_try_def fetch graph)
    next
      case ents: (Inr entities)
      obtain t where t: "snd (invoke_bedrock_model L W (convert_to_json_serializable finding)
            (convert_to_json_serializable entities) event context) =
          Invoke_model (model_id W) ''application/json''
            (json_dumps L (PDict (body_args L W (convert_to_json_serializable finding)
               (convert_to_json_serializable entities)))) # t"
        and sched: "\<forall>c\<in>set t. is_schedule_call c"
        using snd_invoke_bedrock_model by blast
      have pub: "\<And>ai c. c \<in> set (snd (render_and_publish L W detail finding_id
            (convert_to_json_serializable finding)
            (the (map_of (environ W) ''AI_REPORTS_BUCKET_NAME''))
            (the (map_of (environ W) ''AI_REPORTS_TOPIC_ARN'')) ai)) \<Longrightarrow>
          \<not> is_enrichment_call c \<and> \<not> is_analysis_call c"
        using render_and_publish_calls by blast
      show ?thesis
        unfolding tr handler_try_analyzing [OF assms(3-9) g ents] Let_def snd_conv
        using sched g ents
        by (auto simp: snd_andthen t split: sum.splits dest: schedule_call_kind pub
            simp del: json_dumps.simps)
    qed
  qed
qed

theorem gate_open_enriches_then_analyzes_witness:
  "filter (\<lambda>c. is_enrichment_call c \<or> is_analysis_call c)
     (snd (lambda_handler example_lib (example_world (PFloat 4)) example_event example_context)) =
   [List_graphs,
    List_members (PStr ''test_graph_arn''),
    Invoke_model (model_id (example_world (PFloat 4))) ''application/json''
      (json_dumps example_lib (PDict (body_args example_lib (example_world (PFloat 4))
         (convert_to_json_serializable (example_finding (PFloat 4)))
         (convert_to_json_serializable
            (PList [PDict [(''AccountId'', PStr ''123456789012'')]])))))]"
proof -
  have graph: "fst (get_graph_arn (example_world (PFloat 4))) = Inr (PStr ''test_graph_arn'')"
    by (rule example_graph) simp
  have ents: "fst (get_all_detective_entities (example_world (PFloat 4)) (PStr ''test_graph_arn'')) =
     Inr (PList [PDict [(''AccountId'', PStr ''123456789012'')]])"
    by (rule example_entities) simp
  note inst = gate_open_enriches_then_analyzes [OF example_config [of "PFloat 4"] example_lookups
      example_fetch [of "PFloat 4"] example_severity [of "PFloat 4"] example_exactly_four,
      of example_lib example_context]
  from inst [simplified graph ents sum.case]
  obtain later where
    "snd (lambda_handler example_lib (example_world (PFloat 4)) example_event example_context) =
       Get_findings (PStr ''sample-detector'') [PStr ''test_finding_id''] # List_graphs #
       List_members (PStr ''test_graph_arn'') #
       Invoke_model (model_id (example_world (PFloat 4))) ''application/json''
         (json_dumps example_lib (PDict (body_args example_lib (example_world (PFloat 4))
            (convert_to_json_serializable (example_finding (PFloat 4)))
            (convert_to_json_serializable
               (PList [PDict [(''AccountId'', PStr ''123456789012'')]]))))) # later"
    and "\<forall>c\<in>set later. \<not> is_enrichment_call c \<and> \<not> is_analysis_call c"
    by blast
  then show ?thesis
    by (simp add: filter_empty_conv del: json_dumps.simps)
qed

text \<open>
  The claim as the specification words it fails when Detective has no graph: the run has a
  finding of severity 6 and never invokes the analysis.
\<close>

theorem no_graph_no_analysis:
  "lambda_handler example_lib world_no_graph example_event example_context =
     (Inr \<lparr>statusCode = 500,
           body = [CHR 0x22] @ ''Error in processing: No graphs found in Amazon Detective.'' @
                  [CHR 0x22]\<rparr>,
      [Get_findings (PStr ''sample-detector'') [PStr ''test_finding_id''], List_graphs])
   \<and> filter is_analysis_call
        (snd (lambda_handler example_lib world_no_graph example_event example_context)) = []"
proof -
  have cfg: "\<not> not_set (map_of (environ world_no_graph) ''AI_REPORTS_BUCKET_NAME'')"
    "\<not> not_set (map_of (environ world_no_graph) ''AI_REPORTS_TOPIC_ARN'')"
    by (simp_all add: world_no_graph_def example_world_def not_set_def)
  have fetch: "get_guardduty_finding world_no_graph (PStr ''sample-detector'')
      (PStr ''test_finding_id'') =
      (Inr (example_finding (PInt 6)),
       [Get_findings (PStr ''sample-detector'') [PStr ''test_finding_id'']])"
    by (rule get_guardduty_finding_eq)
      (simp add: get_guardduty_finding_def world_no_graph_def example_world_def)
  have graph: "get_graph_arn world_no_graph =
      (Inl (PyException ''No graphs found in Amazon Detective.''), [List_graphs])"
    by (simp add: get_graph_arn_def world_no_graph_def raise_def)
  have "handler_try example_lib world_no_graph example_event example_context
          (the (map_of (environ world_no_graph) ''AI_REPORTS_BUCKET_NAME''))
          (the (map_of (environ world_no_graph) ''AI_REPORTS_TOPIC_ARN'')) =
        (Inl (PyException ''No graphs found in Amazon Detective.''),
         [Get_findings (PStr ''sample-detector'') [PStr ''test_finding_id''], List_graphs])"
    by (simp add: handler_try_def example_lookups fetch example_severity graph)
  then show ?thesis
    by (simp add: lambda_handler_configured [OF cfg] example_str_exn json_string_def
        json_escape_def)
qed

subsection \<open>Retry cleanup\<close>

text \<open>
  A run whose event carries a retry marker and in which rendering, upload and notification
  succeed returns status 200 with the analysis text, and requests no deletion.
\<close>

lemma replayed_run_completes:
  assumes "\<not> not_set (map_of (environ W) ''AI_REPORTS_BUCKET_NAME'')"
    and "\<not> not_set (map_of (environ W) ''AI_REPORTS_TOPIC_ARN'')"
    and "py_getitem event ''detail'' = Inr detail"
    and "py_getitem detail ''id'' = Inr finding_id"
    and "py_getitem detail ''service'' = Inr service"
    and "py_getitem service ''detectorId'' = Inr detector_id"
    and "fst (get_guardduty_finding W detector_id finding_id) = Inr finding"
    and "py_getitem finding ''Severity'' = Inr severity"
    and "py_lt_float severity 4 = Inr False"
    and "fst (get_graph_arn W) = Inr graph_arn"
    and "fst (get_all_detective_entities W graph_arn) = Inr entities"
    and "fst (invoke_bedrock_model L W (convert_to_json_serializable finding)
           (convert_to_json_serializable entities) event context) = Inr ai_insights"
    and "ai_insights \<noteq> PStr ''rescheduled''"
    and "fst (generate_pdf L W ai_insights (convert_to_json_serializable finding)) = Inr pdf_buffer"
    and "fst (upload_pdf_to_s3 W pdf_buffer (py_str L finding_id @ ''.pdf'')
           (the (map_of (environ W) ''AI_REPORTS_BUCKET_NAME''))) = Inr pre_signed_url"
    and "fst (send_sns_notification L W pre_signed_url
           (the (map_of (environ W) ''AI_REPORTS_TOPIC_ARN''))) = Inr ()"
    and "py_getitem detail ''retryRuleName'' = Inr marker"
    and "py_truthy marker"
  shows "fst (lambda_handler L W event context) =
           Inr \<lparr>statusCode = 200, body = json_dumps L ai_insights\<rparr>
       \<and> filter is_schedule_deletion (snd (lambda_handler L W event context)) = []"
proof -
  note cfg = assms(1,2)
  note reach = handler_try_analyzing [OF assms(3-11)]
  let ?b = "the (map_of (environ W) ''AI_REPORTS_BUCKET_NAME'')"
  let ?t = "the (map_of (environ W) ''AI_REPORTS_TOPIC_ARN'')"
  let ?f = "convert_to_json_serializable finding"
  let ?inv = "invoke_bedrock_model L W ?f (convert_to_json_serializable entities) event context"
  let ?up = "upload_pdf_to_s3 W pdf_buffer (py_str L finding_id @ ''.pdf'') ?b"
  let ?send = "send_sns_notification L W pre_signed_url ?t"
  have gen: "generate_pdf L W ai_insights ?f = (Inr pdf_buffer, [])"
    using assms(14) by (simp add: prod_eq_iff)
  have rp: "render_and_publish L W detail finding_id ?f ?b ?t ai_insights =
      (Inr (Completed ai_insights), snd ?up @ snd ?send)"
    unfolding render_and_publish_def Let_def gen
    by (simp add: prod_eq_iff fst_andthen snd_andthen assms(15,16,18)
        py_get_present [OF assms(17)] snd_remove_retry_event_rule del: json_dumps.simps)
  have ht: "handler_try L W event context ?b ?t =
      (Inr (Completed ai_insights),
       Get_findings detector_id [finding_id] # List_graphs # List_members graph_arn #
       snd ?inv @ snd ?up @ snd ?send)"
    unfolding reach Let_def
    by (simp add: prod_eq_iff fst_andthen snd_andthen assms(12,13) rp del: json_dumps.simps)
  show ?thesis
    unfolding fst_lambda_handler_configured [OF cfg] snd_lambda_handler_configured [OF cfg] ht
    by (simp add: invoke_bedrock_model_no_deletion upload_pdf_to_s3_no_deletion
        snd_send_sns_notification del: json_dumps.simps)
qed

text \<open>No run at all requests a deletion.\<close>

lemma render_and_publish_no_deletion:
  "filter is_schedule_deletion (snd (render_and_publish L W detail fid f b t ai)) = []"
  using snd_upload_pdf_to_s3 [of W _ _ b]
  unfolding render_and_publish_def Let_def
  by (auto simp: filter_empty_conv snd_andthen snd_send_sns_notification
      snd_remove_retry_event_rule split: sum.splits dest: deletion_call_kind
      simp del: json_dumps.simps)

lemma handler_try_no_deletion:
  "filter is_schedule_deletion (snd (handler_try L W event context b t)) = []"
  unfolding handler_try_def Let_def
  by (simp add: snd_andthen snd_get_guardduty_finding snd_get_graph_arn
      snd_get_all_detective_entities invoke_bedrock_model_no_deletion
      render_and_publish_no_deletion split: sum.splits del: json_dumps.simps)

lemma no_run_requests_deletion:
  "filter is_schedule_deletion (snd (lambda_handler L W event context)) = []"
proof (cases "not_set (map_of (environ W) ''AI_REPORTS_BUCKET_NAME'')
            \<or> not_set (map_of (environ W) ''AI_REPORTS_TOPIC_ARN'')")
  case True
  then show ?thesis
    by (auto simp: lambda_handler_def Let_def raise_def)
next
  case False
  then show ?thesis
    by (simp add: snd_lambda_handler_configured handler_try_no_deletion)
qed

text \<open>
  Claim C5 says that a run whose event carries a retry marker and which completes
  publishing calls the schedule deletion with exactly that marker, and that a failure of
  the deletion leaves the result at status 200. The code misses the first half: the
  handler hands its SNS client to \<open>remove_retry_event_rule\<close>, that client has no
  \<open>delete_rule\<close>, the AttributeError is caught and logged, and no deletion is ever
  requested. The replayed run below ends with status 200 and without a deletion call,
  whereas the same function called with the EventBridge client requests the deletion of
  exactly the marker.
\<close>

theorem replayed_run_requests_no_deletion:
  "fst (lambda_handler example_lib (example_world (PInt 6)) replayed_event example_context) =
     Inr \<lparr>statusCode = 200, body = [CHR 0x22] @ ''Test AI Insights'' @ [CHR 0x22]\<rparr>
   \<and> filter is_schedule_deletion
       (snd (lambda_handler example_lib (example_world (PInt 6)) replayed_event example_context)) =
     []
   \<and> remove_retry_event_rule (example_world (PInt 6)) SNS (PStr ''RetryLambdaInvocation-52fdfc07'') =
     (Inr (), [])
   \<and> remove_retry_event_rule (example_world (PInt 6)) Events (PStr ''RetryLambdaInvocation-52fdfc07'') =
     (Inr (), [Delete_rule (PStr ''RetryLambdaInvocation-52fdfc07'')])"
proof -
  let ?W = "example_world (PInt 6)"
  have graph: "fst (get_graph_arn ?W) = Inr (PStr ''test_graph_arn'')"
    by (rule example_graph) simp
  have ents: "fst (get_all_detective_entities ?W (PStr ''test_graph_arn'')) =
     Inr (PList [PDict [(''AccountId'', PStr ''123456789012'')]])"
    by (rule example_entities) simp
  have inv: "fst (invoke_bedrock_model example_lib ?W
       (convert_to_json_serializable (example_finding (PInt 6)))
       (convert_to_json_serializable (PList [PDict [(''AccountId'', PStr ''123456789012'')]]))
       replayed_event example_context) = Inr (PStr ''Test AI Insights'')"
    by (rule example_invoke) simp
  have ne: "PStr ''Test AI Insights'' \<noteq> PStr ''rescheduled''"
    by simp
  have up: "fst (upload_pdf_to_s3 ?W ''%PDF'' (py_str example_lib (PStr ''test_finding_id'') @ ''.pdf'')
       (the (map_of (environ ?W) ''AI_REPORTS_BUCKET_NAME''))) = Inr ''https://dummyurl''"
    by (rule example_upload) simp_all
  have send: "fst (send_sns_notification example_lib ?W ''https://dummyurl''
       (the (map_of (environ ?W) ''AI_REPORTS_TOPIC_ARN''))) = Inr ()"
    by (rule example_send) simp
  have truthy: "py_truthy (PStr ''RetryLambdaInvocation-52fdfc07'')"
    by simp
  note run = replayed_run_completes [OF example_config [of "PInt 6"] replayed_lookups
      example_fetch [of "PInt 6"] example_severity [of "PInt 6"] example_not_low graph ents
      inv ne example_generate_pdf up send replayed_marker truthy]
  have "json_dumps example_lib (PStr ''Test AI Insights'') =
      [CHR 0x22] @ ''Test AI Insights'' @ [CHR 0x22]"
    by (simp add: json_string_def json_escape_def)
  moreover have "remove_retry_event_rule ?W SNS (PStr ''RetryLambdaInvocation-52fdfc07'') = (Inr (), [])"
    by (simp add: prod_eq_iff snd_remove_retry_event_rule)
  moreover have "remove_retry_event_rule ?W Events (PStr ''RetryLambdaInvocation-52fdfc07'') =
      (Inr (), [Delete_rule (PStr ''RetryLambdaInvocation-52fdfc07'')])"
    by (simp add: prod_eq_iff snd_remove_retry_event_rule)
  ultimately show ?thesis
    using run by simp
qed

subsection \<open>Publisher\<close>

text \<open>
  Claim C9, as the code has it. In a run that reaches publication and in which S3 accepts
  the object and mints the URL, the storage and notification calls of the run are exactly
  these three, in this order: the bytes are put under the key made of the finding
  identifier and ".pdf", a pre-signed URL is requested for that key with an expiry of 3600
  seconds, and one message is published to the configured topic, in JSON structure, with a
  default rendering and an email rendering that ends with the URL. The URL is written
  there with its leading and trailing whitespace removed and every space replaced by %20,
  so that no space is left in it; a URL without whitespace is written as it is.
\<close>

theorem publication_calls:
  assumes "\<not> not_set (map_of (environ W) ''AI_REPORTS_BUCKET_NAME'')"
    and "\<not> not_set (map_of (environ W) ''AI_REPORTS_TOPIC_ARN'')"
    and "py_getitem event ''detail'' = Inr detail"
    and "py_getitem detail ''id'' = Inr finding_id"
    and "py_getitem detail ''service'' = Inr service"
    and "py_getitem service ''detectorId'' = Inr detector_id"
    and "fst (get_guardduty_finding W detector_id finding_id) = Inr finding"
    and "py_getitem finding ''Severity'' = Inr severity"
    and "py_lt_float severity 4 = Inr False"
    and "fst (get_graph_arn W) = Inr graph_arn"
    and "fst (get_all_detective_entities W graph_arn) = Inr entities"
    and "fst (invoke_bedrock_model L W (convert_to_json_serializable finding)
           (convert_to_json_serializable entities) event context) = Inr ai_insights"
    and "ai_insights \<noteq> PStr ''rescheduled''"
    and "fst (generate_pdf L W ai_insights (convert_to_json_serializable finding)) = Inr pdf_buffer"
    and "put_object W (the (map_of (environ W) ''AI_REPORTS_BUCKET_NAME''))
           (py_str L finding_id @ ''.pdf'') pdf_buffer ''application/pdf'' = Inr ()"
    and "generate_presigned_url W ''get_object''
           (the (map_of (environ W) ''AI_REPORTS_BUCKET_NAME''))
           (py_str L finding_id @ ''.pdf'') 3600 = Inr url"
  shows "filter (\<lambda>c. is_storage_call c \<or> is_notification_call c)
           (snd (lambda_handler L W event context)) =
         [Put_object (the (map_of (environ W) ''AI_REPORTS_BUCKET_NAME''))
            (py_str L finding_id @ ''.pdf'') pdf_buffer ''application/pdf'',
          Generate_presigned_url ''get_object''
            (the (map_of (environ W) ''AI_REPORTS_BUCKET_NAME''))
            (py_str L finding_id @ ''.pdf'') 3600,
          Publish (the (map_of (environ W) ''AI_REPORTS_TOPIC_ARN''))
            (json_dumps L (PDict
               [(''default'',
                 PStr ''New GuardDuty finding with enriched PDF. Click the link to download.''),
                (''email'', PStr (email_message (replace_space (strip url))))]))
            ''GuardDuty Finding Enrichment Report'' ''json'']
       \<and> CHR '' '' \<notin> set (replace_space (strip url))
       \<and> ((\<forall>c\<in>set url. \<not> isspace c) \<longrightarrow> replace_space (strip url) = url)"
proof -
  note cfg = assms(1,2)
  note reach = handler_try_analyzing [OF assms(3-11)]
  let ?b = "the (map_of (environ W) ''AI_REPORTS_BUCKET_NAME'')"
  let ?t = "the (map_of (environ W) ''AI_REPORTS_TOPIC_ARN'')"
  let ?f = "convert_to_json_serializable finding"
  let ?inv = "invoke_bedrock_model L W ?f (convert_to_json_serializable entities) event context"
  have gen: "generate_pdf L W ai_insights ?f = (Inr pdf_buffer, [])"
    using assms(14) by (simp add: prod_eq_iff)
  note up = upload_pdf_to_s3_ok [OF assms(15,16)]
  have rp: "filter (\<lambda>c. is_storage_call c \<or> is_notification_call c)
       (snd (render_and_publish L W detail finding_id ?f ?b ?t ai_insights)) =
     [Put_object ?b (py_str L finding_id @ ''.pdf'') pdf_buffer ''application/pdf'',
      Generate_presigned_url ''get_object'' ?b (py_str L finding_id @ ''.pdf'') 3600,
      Publish ?t (json_dumps L (message_structure (replace_space (strip url))))
        ''GuardDuty Finding Enrichment Report'' ''json'']"
    unfolding render_and_publish_def Let_def
    by (simp add: gen up snd_andthen snd_send_sns_notification snd_remove_retry_event_rule
        split: sum.splits del: json_dumps.simps)
  have "filter (\<lambda>c. is_storage_call c \<or> is_notification_call c)
       (snd (handler_try L W event context ?b ?t)) =
     [Put_object ?b (py_str L finding_id @ ''.pdf'') pdf_buffer ''application/pdf'',
      Generate_presigned_url ''get_object'' ?b (py_str L finding_id @ ''.pdf'') 3600,
      Publish ?t (json_dumps L (message_structure (replace_space (strip url))))
        ''GuardDuty Finding Enrichment Report'' ''json'']"
    unfolding reach Let_def
    by (simp add: snd_andthen assms(12,13) rp invoke_bedrock_model_not_published
        del: json_dumps.simps)
  then show ?thesis
    unfolding snd_lambda_handler_configured [OF cfg] message_structure_def
    using replace_space_no_space encoded_url_id by (simp del: json_dumps.simps)
qed

theorem publication_calls_witness:
  "filter (\<lambda>c. is_storage_call c \<or> is_notification_call c)
     (snd (lambda_handler example_lib (example_world (PInt 6)) example_event example_context)) =
   [Put_object ''test-bucket'' ''test_finding_id.pdf'' ''%PDF'' ''application/pdf'',
    Generate_presigned_url ''get_object'' ''test-bucket'' ''test_finding_id.pdf'' 3600,
    Publish ''arn:aws:sns:us-east-1:123456789012:my-test-topic''
      (json_dumps example_lib (message_structure ''https://dummyurl''))
      ''GuardDuty Finding Enrichment Report'' ''json'']"
proof -
  let ?W = "example_world (PInt 6)"
  have graph: "fst (get_graph_arn ?W) = Inr (PStr ''test_graph_arn'')"
    by (rule example_graph) simp
  have ents: "fst (get_all_detective_entities ?W (PStr ''test_graph_arn'')) =
     Inr (PList [PDict [(''AccountId'', PStr ''123456789012'')]])"
    by (rule example_entities) simp
  have inv: "fst (invoke_bedrock_model example_lib ?W
       (convert_to_json_serializable (example_finding (PInt 6)))
       (convert_to_json_serializable (PList [PDict [(''AccountId'', PStr ''123456789012'')]]))
       example_event example_context) = Inr (PStr ''Test AI Insights'')"
    by (rule example_invoke) simp
  have ne: "PStr ''Test AI Insights'' \<noteq> PStr ''rescheduled''"
    by simp
  have put: "put_object ?W (the (map_of (environ ?W) ''AI_REPORTS_BUCKET_NAME''))
      (py_str example_lib (PStr ''test_finding_id'') @ ''.pdf'') ''%PDF'' ''application/pdf'' = Inr ()"
    by (simp add: example_world_def)
  have sign: "generate_presigned_url ?W ''get_object''
      (the (map_of (environ ?W) ''AI_REPORTS_BUCKET_NAME''))
      (py_str example_lib (PStr ''test_finding_id'') @ ''.pdf'') 3600 = Inr ''https://dummyurl''"
    by (simp add: example_world_def)
  have env: "the (map_of (environ ?W) ''AI_REPORTS_BUCKET_NAME'') = ''test-bucket''"
    "the (map_of (environ ?W) ''AI_REPORTS_TOPIC_ARN'') =
       ''arn:aws:sns:us-east-1:123456789012:my-test-topic''"
    by (simp_all add: example_world_def)
  have url: "replace_space (strip ''https://dummyurl'') = ''https://dummyurl''"
    by (rule encoded_url_id) (simp add: isspace_def)
  note inst = publication_calls [OF example_config [of "PInt 6"] example_lookups
      example_fetch [of "PInt 6"] example_severity [of "PInt 6"] example_not_low graph ents
      inv ne example_generate_pdf put sign]
  show ?thesis
    using inst unfolding env url message_structure_def by (simp del: json_dumps.simps)
qed

text \<open>
  The claim as the specification words it fails in two ways. Whitespace other than the
  space is not encoded: a tab inside the URL reaches the message as a tab. And a
  publication does not always come to the notification: when S3 refuses the object, the
  upload is the only storage or notification call of the run.
\<close>

theorem publication_not_as_claimed:
  "snd (send_sns_notification example_lib (example_world (PInt 6))
          (''https://s3/a'' @ [CHR 0x09] @ ''b c'') ''topic'') =
     [Publish ''topic''
        (json_dumps example_lib (message_structure (''https://s3/a'' @ [CHR 0x09] @ ''b%20c'')))
        ''GuardDuty Finding Enrichment Report'' ''json'']
   \<and> isspace (CHR 0x09)
   \<and> filter (\<lambda>c. is_storage_call c \<or> is_notification_call c)
       (snd (lambda_handler example_lib world_put_object_fails example_event example_context)) =
     [Put_object ''test-bucket'' ''test_finding_id.pdf'' ''%PDF'' ''application/pdf'']"
proof -
  let ?W = world_put_object_fails
  have enc: "replace_space (strip (''https://s3/a'' @ [CHR 0x09] @ ''b c'')) =
      ''https://s3/a'' @ [CHR 0x09] @ ''b%20c''"
    by (simp add: strip_def isspace_def)
  have cfg: "\<not> not_set (map_of (environ ?W) ''AI_REPORTS_BUCKET_NAME'')"
    "\<not> not_set (map_of (environ ?W) ''AI_REPORTS_TOPIC_ARN'')"
    by (simp_all add: world_put_object_fails_def example_world_def not_set_def)
  have fetch: "fst (get_guardduty_finding ?W (PStr ''sample-detector'')
      (PStr ''test_finding_id'')) = Inr (example_finding (PInt 6))"
    by (simp add: get_guardduty_finding_def world_put_object_fails_def example_world_def)
  have graph: "fst (get_graph_arn ?W) = Inr (PStr ''test_graph_arn'')"
    by (rule example_graph [of _ "PInt 6"]) (simp add: world_put_object_fails_def)
  have ents: "fst (get_all_detective_entities ?W (PStr ''test_graph_arn'')) =
     Inr (PList [PDict [(''AccountId'', PStr ''123456789012'')]])"
    by (rule example_entities [of _ "PInt 6"]) (simp add: world_put_object_fails_def)
  have inv: "fst (invoke_bedrock_model example_lib ?W
       (convert_to_json_serializable (example_finding (PInt 6)))
       (convert_to_json_serializable (PList [PDict [(''AccountId'', PStr ''123456789012'')]]))
       example_event example_context) = Inr (PStr ''Test AI Insights'')"
    by (rule example_invoke [of _ "PInt 6"]) (simp add: world_put_object_fails_def)
  have gen: "generate_pdf example_lib ?W (PStr ''Test AI Insights'')
       (convert_to_json_serializable (example_finding (PInt 6))) = (Inr ''%PDF'', [])"
    using example_generate_pdf [of ?W "''Test AI Insights''" "PInt 6"] by (simp add: prod_eq_iff)
  have up: "upload_pdf_to_s3 ?W ''%PDF'' ''test_finding_id.pdf'' ''test-bucket'' =
      (Inl (ClientError ''AccessDenied'' ''Access Denied''),
       [Put_object ''test-bucket'' ''test_finding_id.pdf'' ''%PDF'' ''application/pdf''])"
    by (simp add: upload_pdf_to_s3_def world_put_object_fails_def)
  have env: "the (map_of (environ ?W) ''AI_REPORTS_BUCKET_NAME'') = ''test-bucket''"
    by (simp add: world_put_object_fails_def example_world_def)
  have "filter (\<lambda>c. is_storage_call c \<or> is_notification_call c)
       (snd (lambda_handler example_lib ?W example_event example_context)) =
     [Put_object ''test-bucket'' ''test_finding_id.pdf'' ''%PDF'' ''application/pdf'']"
    unfolding snd_lambda_handler_configured [OF cfg]
      handler_try_analyzing [OF example_lookups fetch example_severity example_not_low graph ents]
      Let_def env snd_conv snd_andthen inv sum.case
    by (simp add: snd_andthen invoke_bedrock_model_not_published render_and_publish_def
        gen up del: json_dumps.simps)
  then show ?thesis
    by (simp add: snd_send_sns_notification enc [simplified] isspace_def del: json_dumps.simps)
qed

subsection \<open>A response without text\<close>

text \<open>
  The extraction \<open>ai_insights.get("content", [{}])[0].get("text", "")\<close> gives the empty
  string when the response has no \<open>content\<close> key, and when the first block of the
  content has no \<open>text\<close> key.
\<close>

lemma invoke_bedrock_model_no_content_key:
  assumes "invoke_model W (model_id W) ''application/json''
             (json_dumps L (PDict (body_args L W f e))) = Inr (PDict kvs)"
    and "map_of kvs ''content'' = None"
  shows "fst (invoke_bedrock_model L W f e ev cx) = Inr (PStr [])"
  using assms by (simp add: invoke_bedrock_model_def Let_def external_def del: json_dumps.simps)

lemma invoke_bedrock_model_no_text_key:
  assumes "invoke_model W (model_id W) ''application/json''
             (json_dumps L (PDict (body_args L W f e))) = Inr (PDict kvs)"
    and "map_of kvs ''content'' = Some (PList (PDict first_block # others))"
    and "map_of first_block ''text'' = None"
  shows "fst (invoke_bedrock_model L W f e ev cx) = Inr (PStr [])"
  using assms by (simp add: invoke_bedrock_model_def Let_def external_def del: json_dumps.simps)

text \<open>
  Claim C7 says that every successful response without the text field gives the empty
  string and does not fail the run. The code misses one such response: a content list that
  is empty. There \<open>[0]\<close> raises IndexError, which \<open>invoke_bedrock_model\<close> re-raises,
  and the handler answers with status 500.
\<close>

theorem empty_content_raises:
  "fst (invoke_bedrock_model example_lib world_empty_content
          (convert_to_json_serializable (example_finding (PInt 6)))
          (convert_to_json_serializable (PList [PDict [(''AccountId'', PStr ''123456789012'')]]))
          example_event example_context) = Inl IndexError
   \<and> fst (lambda_handler example_lib world_empty_content example_event example_context) =
       Inr \<lparr>statusCode = 500,
            body = [CHR 0x22] @ ''Error in processing: list index out of range'' @ [CHR 0x22]\<rparr>"
proof -
  let ?W = world_empty_content
  have cfg: "\<not> not_set (map_of (environ ?W) ''AI_REPORTS_BUCKET_NAME'')"
    "\<not> not_set (map_of (environ ?W) ''AI_REPORTS_TOPIC_ARN'')"
    by (simp_all add: world_empty_content_def example_world_def not_set_def)
  have fetch: "fst (get_guardduty_finding ?W (PStr ''sample-detector'')
      (PStr ''test_finding_id'')) = Inr (example_finding (PInt 6))"
    by (simp add: get_guardduty_finding_def world_empty_content_def example_world_def)
  have graph: "fst (get_graph_arn ?W) = Inr (PStr ''test_graph_arn'')"
    by (rule example_graph [of _ "PInt 6"]) (simp add: world_empty_content_def)
  have ents: "fst (get_all_detective_entities ?W (PStr ''test_graph_arn'')) =
     Inr (PList [PDict [(''AccountId'', PStr ''123456789012'')]])"
    by (rule example_entities [of _ "PInt 6"]) (simp add: world_empty_content_def)
  have inv: "fst (invoke_bedrock_model example_lib ?W
       (convert_to_json_serializable (example_finding (PInt 6)))
       (convert_to_json_serializable (PList [PDict [(''AccountId'', PStr ''123456789012'')]]))
       example_event example_context) = Inl IndexError"
    by (simp add: invoke_bedrock_model_def Let_def world_empty_content_def external_def
        raise_def del: json_dumps.simps)
  have "fst (handler_try example_lib ?W example_event example_context
          (the (map_of (environ ?W) ''AI_REPORTS_BUCKET_NAME''))
          (the (map_of (environ ?W) ''AI_REPORTS_TOPIC_ARN''))) = Inl IndexError"
    unfolding handler_try_analyzing [OF example_lookups fetch example_severity example_not_low
        graph ents] Let_def fst_conv fst_andthen inv
    by simp
  then show ?thesis
    using inv
    by (simp add: fst_lambda_handler_configured [OF cfg] example_str_exn json_string_def
        json_escape_def)
qed

subsection \<open>Document renderer: lines\<close>

text \<open>
  The split into lines loses nothing and leaves no line feed inside a line; some values of
  the split on blank lines.
\<close>

lemma split_acc_not_Nil: "split_acc cur s \<noteq> []"
  by (induction s arbitrary: cur) auto

lemma join_Cons: "join sep (x # xs) = (if xs = [] then x else x @ sep @ join sep xs)"
  by (cases xs) simp_all

lemma join_split_acc: "join [CHR 0x0A] (split_acc cur s) = rev cur @ s"
  by (induction s arbitrary: cur) (simp_all add: join_Cons split_acc_not_Nil)

lemma join_split_lines: "join [CHR 0x0A] (split_lines s) = s"
  by (simp add: split_lines_def join_split_acc)

lemma split_acc_no_newline:
  "CHR 0x0A \<notin> set cur \<Longrightarrow> l \<in> set (split_acc cur s) \<Longrightarrow> CHR 0x0A \<notin> set l"
proof (induction s arbitrary: cur)
  case Nil
  then show ?case by simp
next
  case (Cons c s)
  show ?case
  proof (cases "c = CHR 0x0A")
    case True
    with Cons.prems have "l = rev cur \<or> l \<in> set (split_acc [] s)"
      by simp
    then show ?thesis
      using Cons.prems(1) Cons.IH [of "[]"] by auto
  next
    case False
    with Cons.prems have "l \<in> set (split_acc (c # cur) s)"
      by simp
    then show ?thesis
      using False Cons.prems(1) Cons.IH [of "c # cur"] by simp
  qed
qed

lemma split_lines_no_newline: "l \<in> set (split_lines s) \<Longrightarrow> CHR 0x0A \<notin> set l"
  using split_acc_no_newline [of "[]" l s] by (simp add: split_lines_def)

lemma re_split_blank_examples:
  "re_split_blank (''A'' @ [CHR 0x0A, CHR 0x0A] @ ''B'') = [''A'', ''B'']"
  "re_split_blank (''A'' @ [CHR 0x0A, CHR '' '', CHR 0x09, CHR 0x0A, CHR 0x0A] @ ''B'') = [''A'', ''B'']"
  "re_split_blank (''A'' @ [CHR 0x0A, CHR '' ''] @ ''B'') = [''A'' @ [CHR 0x0A, CHR '' ''] @ ''B'']"
  "re_split_blank (''A'' @ [CHR 0x0A, CHR 0x0A, CHR '' ''] @ ''B'') = [''A'', '' B'']"
  "re_split_blank [] = [[]]"
  by (simp_all add: re_split_blank_def isspace_def)

lemma render_line_blocks:
  "blocks (render_line pdf line) = blocks pdf @ [spec_block (text_color pdf) line]"
  "text_color (render_line pdf line) = text_color pdf"
  by (simp_all add: render_line_def spec_block_def pdf_cell_def pdf_multi_cell_def
      pdf_set_font_def heading_def body_paragraph_def primary_headers_def secondary_headers_def
      primary_style_def secondary_style_def normal_style_def)

lemma foldl_render_line:
  "blocks (foldl render_line pdf ls) = blocks pdf @ map (spec_block (text_color pdf)) ls
   \<and> text_color (foldl render_line pdf ls) = text_color pdf"
  by (induction ls arbitrary: pdf) (simp_all add: render_line_blocks)

lemma render_section_blocks:
  "blocks (render_section pdf s) =
     blocks pdf @ map (spec_block (text_color pdf)) (split_lines s) @ [Ln_block 5]"
  "text_color (render_section pdf s) = text_color pdf"
  by (simp_all add: render_section_def pdf_ln_def foldl_render_line)

lemma render_insights_blocks:
  "blocks (render_insights pdf sections) =
     blocks pdf @
     concat (map (\<lambda>s. map (spec_block (text_color pdf)) (split_lines s) @ [Ln_block 5]) sections)
   \<and> text_color (render_insights pdf sections) = text_color pdf"
  unfolding render_insights_def
  by (induction sections arbitrary: pdf) (simp_all add: render_section_blocks)

text \<open>
  The whole document: \<open>generate_pdf\<close> hands to the serializer the head of the report, the
  blocks of the analysis text, and the conclusion.
\<close>

lemma render_line_page_break [simp]:
  "auto_page_break (render_line pdf line) = auto_page_break pdf"
  by (simp add: render_line_def pdf_cell_def pdf_multi_cell_def pdf_set_font_def)

lemma foldl_render_line_page_break [simp]:
  "auto_page_break (foldl render_line pdf ls) = auto_page_break pdf"
  by (induction ls arbitrary: pdf) simp_all

lemma render_section_page_break [simp]:
  "auto_page_break (render_section pdf s) = auto_page_break pdf"
  by (simp add: render_section_def pdf_ln_def)

lemma render_insights_page_break [simp]:
  "auto_page_break (render_insights pdf sections) = auto_page_break pdf"
  unfolding render_insights_def by (induction sections arbitrary: pdf) simp_all

lemma generate_pdf_report:
  assumes "py_get guardduty_finding ''Type'' (PStr ''N/A'') = Inr (PStr type_label)"
    and "fst (finding_details L guardduty_finding) = Inr details"
    and "fst (fmt_get L guardduty_finding ''Region'' ''us-east-1'') = Inr region"
    and "fst (fmt_get L guardduty_finding ''Id'' ''unknown'') = Inr finding_id"
  shows "generate_pdf L W (PStr text) guardduty_finding =
     (Inr (fpdf_output L (now_output W) (True, 15)
             (report_head type_label (utcnow_pdf W) details region finding_id @
              report_body text @ report_tail)), [])"
proof -
  have d: "finding_details L guardduty_finding = (Inr details, [])"
    using assms(2) by (simp add: prod_eq_iff)
  have r: "fmt_get L guardduty_finding ''Region'' ''us-east-1'' = (Inr region, [])"
    using assms(3) by (simp add: prod_eq_iff)
  have i: "fmt_get L guardduty_finding ''Id'' ''unknown'' = (Inr finding_id, [])"
    using assms(4) by (simp add: prod_eq_iff)
  show ?thesis
    unfolding generate_pdf_def Let_def
    by (simp add: assms(1) d r i ret_def render_insights_blocks report_head_def report_body_def
        report_tail_def FPDF_def pdf_add_page_def pdf_set_auto_page_break_def pdf_set_font_def
        pdf_cell_def pdf_multi_cell_def pdf_ln_def pdf_set_text_color_def)
qed

text \<open>
  Claim C3. For an analysis text and a finding that \<open>generate_pdf\<close> can print, the
  blocks that \<open>generate_pdf\<close> hands to the serializer are the head of the report, then,
  for every section of the text (split at blank lines, after trimming) and every line of
  the section, exactly one block, the one the specification describes, with a break of 5
  after each section, then the conclusion. The loops over the sections and their lines add
  these blocks to whatever document they are run on. The block that a line adds is a
  heading exactly when the trimmed line is one of the six headers (compared as strings, so
  in the same case), and a body paragraph exactly when it is none of them; its text is the
  trimmed line; its font is the primary style (Arial bold 12) for "Analysis:", "Remediation
  Actions:" and "Recommended Actions:", the secondary style (Arial bold 10) for "Entities
  Involved:", "Security Group Impact:" and "Attempt Status:", and the normal style
  (Arial 10) for every other line, whatever font the lines before it left.
\<close>

theorem lines_render_by_header:
  assumes "py_get guardduty_finding ''Type'' (PStr ''N/A'') = Inr (PStr type_label)"
    and "fst (finding_details L guardduty_finding) = Inr details"
    and "fst (fmt_get L guardduty_finding ''Region'' ''us-east-1'') = Inr region"
    and "fst (fmt_get L guardduty_finding ''Id'' ''unknown'') = Inr finding_id"
  shows "generate_pdf L W (PStr ai_insights) guardduty_finding =
           (Inr (fpdf_output L (now_output W) (True, 15)
                   (report_head type_label (utcnow_pdf W) details region finding_id @
                    concat (map (\<lambda>s. map (spec_block (0, 0, 0)) (split_lines s) @ [Ln_block 5])
                              (re_split_blank (strip ai_insights))) @
                    report_tail)), [])
   \<and> blocks (render_insights pdf sections) =
       blocks pdf @
       concat (map (\<lambda>s. map (spec_block (text_color pdf)) (split_lines s) @ [Ln_block 5]) sections)
   \<and> (is_heading (last (blocks (render_line pdf line))) \<longleftrightarrow>
        strip line \<in> set primary_headers \<or> strip line \<in> set secondary_headers)
   \<and> (is_paragraph (last (blocks (render_line pdf line))) \<longleftrightarrow>
        strip line \<notin> set primary_headers \<and> strip line \<notin> set secondary_headers)
   \<and> block_text (last (blocks (render_line pdf line))) = strip line
   \<and> block_font (last (blocks (render_line pdf line))) =
        Some (if strip line \<in> set primary_headers then primary_style
              else if strip line \<in> set secondary_headers then secondary_style
              else normal_style)"
  using generate_pdf_report [OF assms, of W ai_insights]
  by (simp add: report_body_def render_insights_blocks render_line_blocks spec_block_def
      heading_def body_paragraph_def)

lemma example_report_inputs:
  "py_get (example_finding s) ''Type'' (PStr ''N/A'') = Inr (PStr ''UnauthorizedAccess:EC2/SSHBruteForce'')"
  "fst (finding_details L (example_finding (PInt 6))) =
     Inr (''Finding Type: UnauthorizedAccess:EC2/SSHBruteForce'' @ [CHR 0x0A] @
          ''Finding ID: test_finding_id'' @ [CHR 0x0A] @
          ''Severity: 6'' @ [CHR 0x0A] @
          ''Account ID: 123456789012'' @ [CHR 0x0A] @
          ''Region: us-east-1'' @ [CHR 0x0A])"
  "fst (fmt_get L (example_finding s) ''Region'' ''us-east-1'') = Inr ''us-east-1''"
  "fst (fmt_get L (example_finding s) ''Id'' ''unknown'') = Inr ''test_finding_id''"
  by (simp_all add: example_finding_def finding_details_def fmt_get_def str_int_def
      str_nat.simps)

lemma example_sections:
  "re_split_blank (strip example_insights) =
     [''Analysis:'' @ [CHR 0x0A] @ ''Breach detected.'',
      ''  Attempt Status:  '' @ [CHR 0x0A] @ ''Blocked.'',
      ''analysis:'']"
  by (simp add: example_insights_def strip_def re_split_blank_def isspace_def)

lemma example_body:
  "concat (map (\<lambda>s. map (spec_block (0, 0, 0)) (split_lines s) @ [Ln_block 5])
     (re_split_blank (strip example_insights))) =
   [Cell_block (Font ''Arial'' ''B'' 12) (0, 0, 0) 0 10 ''Analysis:'' True [] [],
    Multi_cell_block (Font ''Arial'' [] 10) (0, 0, 0) 0 10 ''Breach detected.'',
    Ln_block 5,
    Cell_block (Font ''Arial'' ''B'' 10) (0, 0, 0) 0 10 ''Attempt Status:'' True [] [],
    Multi_cell_block (Font ''Arial'' [] 10) (0, 0, 0) 0 10 ''Blocked.'',
    Ln_block 5,
    Multi_cell_block (Font ''Arial'' [] 10) (0, 0, 0) 0 10 ''analysis:'',
    Ln_block 5]"
  unfolding example_sections
  by (simp add: split_lines_def spec_block_def strip_def isspace_def heading_def
      body_paragraph_def primary_headers_def secondary_headers_def primary_style_def
      secondary_style_def normal_style_def)

theorem lines_render_by_header_witness:
  "generate_pdf stamping_lib (example_world (PInt 6)) (PStr example_insights)
     (example_finding (PInt 6)) =
   (Inr (example_serialize (now_output (example_world (PInt 6))) (True, 15)
      (report_head ''UnauthorizedAccess:EC2/SSHBruteForce'' (utcnow_pdf (example_world (PInt 6)))
         (''Finding Type: UnauthorizedAccess:EC2/SSHBruteForce'' @ [CHR 0x0A] @
          ''Finding ID: test_finding_id'' @ [CHR 0x0A] @
          ''Severity: 6'' @ [CHR 0x0A] @
          ''Account ID: 123456789012'' @ [CHR 0x0A] @
          ''Region: us-east-1'' @ [CHR 0x0A])
         ''us-east-1'' ''test_finding_id'' @
       [Cell_block (Font ''Arial'' ''B'' 12) (0, 0, 0) 0 10 ''Analysis:'' True [] [],
        Multi_cell_block (Font ''Arial'' [] 10) (0, 0, 0) 0 10 ''Breach detected.'',
        Ln_block 5,
        Cell_block (Font ''Arial'' ''B'' 10) (0, 0, 0) 0 10 ''Attempt Status:'' True [] [],
        Multi_cell_block (Font ''Arial'' [] 10) (0, 0, 0) 0 10 ''Blocked.'',
        Ln_block 5,
        Multi_cell_block (Font ''Arial'' [] 10) (0, 0, 0) 0 10 ''analysis:'',
        Ln_block 5] @
       report_tail)), [])"
proof -
  have lib: "fpdf_output stamping_lib = example_serialize"
    by (simp add: stamping_lib_def)
  note inst = lines_render_by_header [OF example_report_inputs,
      of stamping_lib "example_world (PInt 6)" example_insights]
  from inst show ?thesis
    unfolding example_body lib by blast
qed

subsection \<open>Document renderer: determinism\<close>





end
